theory Spec2Isabelle
  imports Main "HOL-Library.Word"
begin

section \<open>Element types, reduction operators and the two lookup tables\<close>

text \<open>
  The element types of a tensor and the reduction operators of the calling framework, and
  the substrate's own enumerations. The tables \<open>cclOps\<close> and \<open>cclDatatypes\<close> are the two
  \<open>std::map\<close> objects of the source, kept as association lists in the source's order.
\<close>

datatype ScalarType =
  kByte | kChar | kShort | kInt | kLong | kHalf | kFloat | kDouble
  | kComplexHalf | kComplexFloat | kComplexDouble | kBool
  | kQInt8 | kQUInt8 | kQInt32 | kBFloat16

datatype ReduceOp =
  ReduceOp_SUM | ReduceOp_PRODUCT | ReduceOp_MIN | ReduceOp_MAX
  | ReduceOp_BAND | ReduceOp_BOR | ReduceOp_BXOR

datatype ccl_reduction = reduction_min | reduction_max | reduction_sum | reduction_prod

datatype ccl_data_type = dt_char | dt_double | dt_bfp16 | dt_float | dt_int | dt_int64

definition cclOps :: "(ReduceOp \<times> ccl_reduction) list" where
  "cclOps =
     [(ReduceOp_MIN, reduction_min),
      (ReduceOp_MAX, reduction_max),
      (ReduceOp_SUM, reduction_sum),
      (ReduceOp_PRODUCT, reduction_prod)]"

definition cclDatatypes :: "(ScalarType \<times> ccl_data_type) list" where
  "cclDatatypes =
     [(kByte, dt_char),
      (kChar, dt_char),
      (kDouble, dt_double),
      (kBFloat16, dt_bfp16),
      (kFloat, dt_float),
      (kInt, dt_int),
      (kLong, dt_int64)]"

section \<open>Failures\<close>

text \<open>
  Every way a call of the source can end without returning: a failed \<open>TORCH_CHECK\<close>
  (\<open>C10Error\<close>, the validation error), the index error of \<open>Tensor::size(dim)\<close> on a missing
  dimension, a \<open>std::runtime_error\<close>, the \<open>std::out_of_range\<close> of \<open>std::map::at\<close>, an
  error raised by the substrate, and the undefined behaviour of an unchecked
  \<open>std::vector\<close> access out of range or of a division by zero.
\<close>

datatype failure =
  C10Error string
  | IndexError string
  | StdRuntimeError string
  | StdOutOfRange string
  | CclError string
  | UndefinedBehaviour string

definition map_at :: "('k \<times> 'v) list \<Rightarrow> 'k \<Rightarrow> failure + 'v" where
  "map_at m k =
     (case map_of m k of
        None \<Rightarrow> Inl (StdOutOfRange ''map::at'')
      | Some v \<Rightarrow> Inr v)"

definition TORCH_CHECK :: "bool \<Rightarrow> string \<Rightarrow> failure + unit" where
  "TORCH_CHECK cond msg = (if cond then Inr () else Inl (C10Error msg))"

definition is_validation_error :: "failure \<Rightarrow> bool" where
  "is_validation_error e = (case e of C10Error _ \<Rightarrow> True | _ \<Rightarrow> False)"

section \<open>Buffers\<close>

text \<open>
  A tensor as far as the engine looks at it: the identity of its backing allocation, its
  offset into it (in elements), its shape, its element type and the three layout flags.
  Two storages alias each other when they are the same allocation.
\<close>

record Tensor =
  storage :: nat
  storage_offset :: int
  sizes :: "nat list"
  scalar_type :: ScalarType
  is_contiguous :: bool
  is_sparse :: bool
  is_cuda :: bool

type_synonym ptr = "nat \<times> int"

definition numel :: "Tensor \<Rightarrow> nat" where
  "numel t = prod_list (sizes t)"

definition data_ptr :: "Tensor \<Rightarrow> ptr" where
  "data_ptr t = (storage t, storage_offset t)"

definition is_alias_of :: "nat \<Rightarrow> nat \<Rightarrow> bool" where
  "is_alias_of a b = (a = b)"

definition size0 :: "Tensor \<Rightarrow> failure + nat" where
  "size0 t =
     (case sizes t of
        [] \<Rightarrow> Inl (IndexError ''Dimension specified as 0 but tensor has no dimensions'')
      | d # _ \<Rightarrow> Inr d)"

section \<open>Integer conversions of the source\<close>

definition to_size_t :: "int \<Rightarrow> nat" where
  "to_size_t i = nat (i mod 2 ^ 64)"

definition to_int32 :: "int \<Rightarrow> int" where
  "to_int32 i = sint (word_of_int i :: 32 word)"

definition c_rem :: "int \<Rightarrow> int \<Rightarrow> int" where
  "c_rem a b = sgn a * (\<bar>a\<bar> mod \<bar>b\<bar>)"

text \<open>
  \<open>std::accumulate(first, last, 0)\<close>: the accumulator has the type of the initial value,
  \<open>int\<close>, so every partial sum is converted back to 32 bits.
\<close>

fun accumulate_int :: "int list \<Rightarrow> int \<Rightarrow> int" where
  "accumulate_int [] init = init"
| "accumulate_int (x # xs) init = accumulate_int xs (to_int32 (init + x))"

section \<open>Input checks\<close>

definition checkSingleTensorHelper :: "Tensor \<Rightarrow> failure + unit" where
  "checkSingleTensorHelper tensor =
     (if \<not> is_contiguous tensor then Inl (C10Error ''input tensor has to be contiguous'')
      else if is_sparse tensor then Inl (C10Error ''input tensor has to be dense'')
      else if is_cuda tensor
        then Inl (C10Error ''CUDA tensor detected and CCL doesn't support CUDA buffers'')
      else if \<not> (0 \<le> int (numel tensor))
        then Inl (C10Error ''input tensor numel should be non-negative'')
      else Inr ())"

definition checkRank :: "int \<Rightarrow> int \<Rightarrow> failure + unit" where
  "checkRank rank sz = TORCH_CHECK (rank \<ge> 0 \<and> rank < sz) ''unexpected rank''"

definition checkSingleTensor :: "Tensor list \<Rightarrow> failure + unit" where
  "checkSingleTensor tensors =
     (case tensors of
        [t] \<Rightarrow> checkSingleTensorHelper t
      | _ \<Rightarrow> Inl (C10Error ''CCL process group does not support tensors count''))"

fun checkSameSizeAndType :: "Tensor \<Rightarrow> Tensor list \<Rightarrow> failure + unit" where
  "checkSameSizeAndType tensor [] = Inr ()"
| "checkSameSizeAndType tensor (t # ts) =
     (if numel t = numel tensor \<and> scalar_type t = scalar_type tensor
      then (case checkSingleTensorHelper t of
              Inl e \<Rightarrow> Inl e
            | Inr _ \<Rightarrow> checkSameSizeAndType tensor ts)
      else Inl (C10Error ''tensors are not equal in size or data type''))"

fun checkSameType :: "Tensor \<Rightarrow> Tensor list \<Rightarrow> failure + unit" where
  "checkSameType tensor [] = Inr ()"
| "checkSameType tensor (t # ts) =
     (if scalar_type t = scalar_type tensor
      then (case checkSingleTensorHelper t of
              Inl e \<Rightarrow> Inl e
            | Inr _ \<Rightarrow> checkSameType tensor ts)
      else Inl (C10Error ''tensors are not equal in data type''))"

definition checkSplitSizes :: "int list \<Rightarrow> Tensor \<Rightarrow> int \<Rightarrow> failure + unit" where
  "checkSplitSizes split_sizes tensor groupSize =
     (if length split_sizes = 0
      then (case size0 tensor of
              Inl e \<Rightarrow> Inl e
            | Inr d \<Rightarrow>
                if groupSize = 0 then Inl (UndefinedBehaviour ''remainder by zero'')
                else TORCH_CHECK (c_rem (int d) groupSize = 0)
                       ''Tensor's dim 0 does not divide equally across group size'')
      else if length split_sizes \<noteq> to_size_t groupSize
        then Inl (C10Error ''Number of tensor splits not equal to group size'')
      else (let sum = accumulate_int split_sizes 0 in
            case size0 tensor of
              Inl e \<Rightarrow> Inl e
            | Inr d \<Rightarrow>
                TORCH_CHECK (sum = int d) ''Split sizes doesn't match total dim 0 size''))"

section \<open>The substrate and the heap\<close>

text \<open>
  The communication library is outside the repository. It is modelled by what the engine
  sees of it: a call is issued and answers with a fresh request, or raises; a request is
  waited on or polled. The two fields \<open>raises\<close> and \<open>progress\<close> stand for the answers
  of the library, which the engine does not control. The trace records every call the
  engine makes and every copy between buffers, in order; \<open>next_storage\<close> is the next
  fresh allocation of the tensor library.
\<close>

datatype recv_buffers = FlatBuf ptr | VectorBuf "ptr list"

datatype ccl_call =
  Bcast ptr nat ccl_data_type nat
  | Allreduce ptr ptr nat ccl_data_type ccl_reduction
  | Reduce ptr ptr nat ccl_data_type ccl_reduction nat
  | Allgatherv ptr nat recv_buffers "nat list" ccl_data_type
  | Alltoall ptr ptr nat ccl_data_type
  | Alltoallv ptr "nat list" ptr "nat list" ccl_data_type
  | Barrier

datatype ccl_op = Issue ccl_call | WaitOn nat | TestOn nat

datatype event =
  Issued ccl_call nat
  | BarrierDone
  | Waited nat
  | Tested nat bool
  | Copied ptr ptr nat

record world =
  trace :: "event list"
  next_req :: nat
  finished :: "nat list"
  next_storage :: nat
  raises :: "ccl_op \<Rightarrow> string option"
  progress :: "nat \<Rightarrow> bool"

type_synonym 'a M = "world \<Rightarrow> (failure + 'a) \<times> world"

definition ret :: "'a \<Rightarrow> 'a M" where
  "ret x = (\<lambda>s. (Inr x, s))"

definition throw :: "failure \<Rightarrow> 'a M" where
  "throw e = (\<lambda>s. (Inl e, s))"

definition chk :: "failure + 'a \<Rightarrow> 'a M" where
  "chk r = (\<lambda>s. (r, s))"

definition bnd :: "'a M \<Rightarrow> ('a \<Rightarrow> 'b M) \<Rightarrow> 'b M" where
  "bnd m f = (\<lambda>s. case m s of (Inl e, s') \<Rightarrow> (Inl e, s') | (Inr x, s') \<Rightarrow> f x s')"

definition ccl_issue :: "ccl_call \<Rightarrow> nat M" where
  "ccl_issue c =
     (\<lambda>s. case raises s (Issue c) of
            Some msg \<Rightarrow> (Inl (CclError msg), s)
          | None \<Rightarrow>
              (Inr (next_req s),
               s\<lparr>trace := trace s @ [Issued c (next_req s)], next_req := Suc (next_req s)\<rparr>))"

definition ccl_barrier :: "unit M" where
  "ccl_barrier =
     (\<lambda>s. case raises s (Issue Barrier) of
            Some msg \<Rightarrow> (Inl (CclError msg), s)
          | None \<Rightarrow> (Inr (), s\<lparr>trace := trace s @ [BarrierDone]\<rparr>))"

definition req_wait :: "nat \<Rightarrow> unit M" where
  "req_wait r =
     (\<lambda>s. case raises s (WaitOn r) of
            Some msg \<Rightarrow> (Inl (CclError msg), s)
          | None \<Rightarrow> (Inr (), s\<lparr>trace := trace s @ [Waited r], finished := r # finished s\<rparr>))"

definition req_test :: "nat \<Rightarrow> bool M" where
  "req_test r =
     (\<lambda>s. case raises s (TestOn r) of
            Some msg \<Rightarrow> (Inl (CclError msg), s)
          | None \<Rightarrow>
              (let flag = (r \<in> set (finished s) \<or> progress s r) in
               (Inr flag,
                s\<lparr>trace := trace s @ [Tested r flag],
                  finished := (if flag then r # finished s else finished s)\<rparr>)))"

text \<open>
  The macro \<open>CCL_CHECK\<close>: an error of the substrate is raised again as a
  \<open>std::runtime_error\<close> with its message, and anything else thrown inside the macro
  as a \<open>std::runtime_error\<close> that says "unknown error".
\<close>

definition CCL_CHECK :: "'a M \<Rightarrow> 'a M" where
  "CCL_CHECK cmd =
     (\<lambda>s. case cmd s of
            (Inl (CclError msg), s') \<Rightarrow>
              (Inl (StdRuntimeError (''CCL error in: ProcessGroupCCL.cpp, with error message: '' @ msg)), s')
          | (Inl (UndefinedBehaviour u), s') \<Rightarrow> (Inl (UndefinedBehaviour u), s')
          | (Inl _, s') \<Rightarrow> (Inl (StdRuntimeError ''unknown error in: ProcessGroupCCL.cpp''), s')
          | (Inr x, s') \<Rightarrow> (Inr x, s'))"

definition at_empty :: "nat list \<Rightarrow> Tensor \<Rightarrow> Tensor M" where
  "at_empty shape like =
     (\<lambda>s. (Inr \<lparr>storage = next_storage s, storage_offset = 0, sizes = shape,
                scalar_type = scalar_type like, is_contiguous = True,
                is_sparse = is_sparse like, is_cuda = is_cuda like\<rparr>,
           s\<lparr>next_storage := Suc (next_storage s)\<rparr>))"

section \<open>The Buffer Layout Reconciler\<close>

record loop_state =
  firstLength :: nat
  firstTensor :: Tensor
  storage' :: nat
  firstStorageOffset :: int
  isFlat :: bool
  offset :: nat
  lengths :: "nat list"

fun flat_loop :: "Tensor list \<Rightarrow> nat \<Rightarrow> loop_state \<Rightarrow> loop_state" where
  "flat_loop [] i st = st"
| "flat_loop (curTensor # rest) i st =
     (let len = numel curTensor;
          st1 = (if firstLength st = 0 \<and> len \<noteq> 0
                 then st\<lparr>firstLength := len, firstTensor := curTensor,
                        storage' := storage curTensor,
                        firstStorageOffset := storage_offset curTensor\<rparr>
                 else st);
          st2 = st1\<lparr>lengths := (lengths st1)[i := len]\<rparr>;
          st3 = (if isFlat st2 \<and> len \<noteq> 0 \<and>
                    (\<not> is_alias_of (storage' st2) (storage curTensor) \<or>
                     storage_offset curTensor \<noteq> firstStorageOffset st2 + int (offset st2))
                 then st2\<lparr>isFlat := False\<rparr>
                 else st2);
          st4 = st3\<lparr>offset := offset st3 + len\<rparr>
      in flat_loop rest (Suc i) st4)"

definition flat_init :: "Tensor \<Rightarrow> nat list \<Rightarrow> loop_state" where
  "flat_init t ls =
     \<lparr>firstLength = numel t, firstTensor = t, storage' = storage t,
      firstStorageOffset = storage_offset t, isFlat = True, offset = 0, lengths = ls\<rparr>"

definition computeLengthsAndCheckAndGetFlat ::
  "Tensor list \<Rightarrow> nat list \<Rightarrow> (bool \<times> nat list \<times> Tensor) M" where
  "computeLengthsAndCheckAndGetFlat tensors lengths0 =
     (let groupSize = length lengths0 in
      case tensors of
        [] \<Rightarrow> throw (UndefinedBehaviour ''tensors[0] of an empty vector'')
      | t0 # _ \<Rightarrow>
          if length tensors < groupSize
          then throw (UndefinedBehaviour ''tensors[i] out of range'')
          else (let st = flat_loop (take groupSize tensors) 0 (flat_init t0 lengths0) in
                if isFlat st then ret (True, lengths st, firstTensor st)
                else bnd (at_empty [offset st] (firstTensor st))
                       (\<lambda>flatTensor. ret (False, lengths st, flatTensor))))"

section \<open>The Work Handle\<close>

text \<open>
  Modelled from the spec: the class \<open>WorkCCL\<close> is declared in the header
  \<open>ProcessGroupCCL.hpp\<close>, which is not among the sources. A handle wraps zero or one
  substrate request and the buffers it keeps referenced; the constructor without
  arguments holds no request, the constructor with a request and a buffer list stores
  both as given.
\<close>

record WorkCCL =
  req :: "nat option"
  tensors' :: "Tensor list"

definition WorkCCL_empty :: WorkCCL where
  "WorkCCL_empty = \<lparr>req = None, tensors' = []\<rparr>"

definition WorkCCL_new :: "nat \<Rightarrow> Tensor list \<Rightarrow> WorkCCL" where
  "WorkCCL_new r ts = \<lparr>req = Some r, tensors' = ts\<rparr>"

datatype exit = Terminated | Returned

definition WorkCCL_destroy :: "WorkCCL \<Rightarrow> string \<times> exit" where
  "WorkCCL_destroy w =
     (if req w \<noteq> None
      then (''attempted destruction of WorkCCL before work has completed, terminating the program.'',
            Terminated)
      else ([], Returned))"

definition isCompleted :: "WorkCCL \<Rightarrow> (bool \<times> WorkCCL) M" where
  "isCompleted w =
     (case req w of
        None \<Rightarrow> ret (True, w)
      | Some r \<Rightarrow>
          bnd (CCL_CHECK (req_test r))
            (\<lambda>flag. if flag then ret (flag, w\<lparr>req := None, tensors' := []\<rparr>)
                     else ret (flag, w)))"

definition isSuccess :: "WorkCCL \<Rightarrow> failure + bool" where
  "isSuccess w =
     (if req w \<noteq> None
      then Inl (StdRuntimeError ''invalid call to WorkCCL::isSuccess before work has completed'')
      else Inr True)"

definition wait :: "WorkCCL \<Rightarrow> (bool \<times> WorkCCL) M" where
  "wait w =
     (case req w of
        None \<Rightarrow> ret (True, w)
      | Some r \<Rightarrow>
          bnd (CCL_CHECK (req_wait r))
            (\<lambda>_. ret (True, w\<lparr>req := None, tensors' := []\<rparr>)))"

definition abort :: "WorkCCL \<Rightarrow> failure + unit" where
  "abort w = TORCH_CHECK False ''ProcessGroupCCL::WorkCCL::abort not implemented.''"

section \<open>Views, copies and allocation of the tensor library\<close>

text \<open>
  What the engine uses of the tensor library: \<open>view({-1})\<close>, selecting slice \<open>i\<close> of the
  leading dimension, \<open>split_with_sizes\<close> along dimension 0 of a one-dimensional buffer,
  \<open>copy_\<close> (which raises when the source does not expand to the destination's shape) and
  \<open>newLikeFlat\<close>. A copy is recorded in the trace.
\<close>

definition view_flat :: "Tensor \<Rightarrow> Tensor" where
  "view_flat t = t\<lparr>sizes := [numel t]\<rparr>"

definition select0 :: "Tensor \<Rightarrow> nat \<Rightarrow> Tensor" where
  "select0 t i =
     t\<lparr>sizes := tl (sizes t),
       storage_offset := storage_offset t + int (i * prod_list (tl (sizes t)))\<rparr>"

fun split_with_sizes :: "Tensor \<Rightarrow> nat list \<Rightarrow> Tensor list" where
  "split_with_sizes t [] = []"
| "split_with_sizes t (n # ns) =
     t\<lparr>sizes := [n]\<rparr> #
     split_with_sizes (t\<lparr>storage_offset := storage_offset t + int n\<rparr>) ns"

fun expands_to :: "nat list \<Rightarrow> nat list \<Rightarrow> bool" where
  "expands_to [] ds = True"
| "expands_to (s # ss) [] = False"
| "expands_to (s # ss) (d # ds) = ((s = d \<or> s = 1) \<and> expands_to ss ds)"

definition copy' :: "Tensor \<Rightarrow> Tensor \<Rightarrow> unit M" where
  "copy' dst src =
     (if expands_to (rev (sizes src)) (rev (sizes dst))
      then (\<lambda>s. (Inr (),
                 s\<lparr>trace := trace s @ [Copied (data_ptr dst) (data_ptr src) (numel dst)]\<rparr>))
      else throw (C10Error ''The size of tensor a must match the size of tensor b''))"

fun copy_each :: "(Tensor \<times> Tensor) list \<Rightarrow> unit M" where
  "copy_each [] = ret ()"
| "copy_each ((dst, src) # rest) = bnd (copy' dst src) (\<lambda>_. copy_each rest)"

definition newLikeFlat :: "Tensor list \<Rightarrow> Tensor M" where
  "newLikeFlat ts =
     (case ts of
        [] \<Rightarrow> throw (StdRuntimeError ''Received an empty list'')
      | t # _ \<Rightarrow> at_empty (length ts # sizes t) t)"

definition vec_at :: "'a list \<Rightarrow> int \<Rightarrow> failure + 'a" where
  "vec_at xs i =
     (if 0 \<le> i \<and> i < int (length xs) then Inr (xs ! nat i)
      else Inl (UndefinedBehaviour ''vector subscript out of range''))"

definition vec_set :: "'a list \<Rightarrow> int \<Rightarrow> 'a \<Rightarrow> failure + 'a list" where
  "vec_set xs i v =
     (if 0 \<le> i \<and> i < int (length xs) then Inr (xs[nat i := v])
      else Inl (UndefinedBehaviour ''vector subscript out of range''))"

section \<open>The Process Group Engine\<close>

text \<open>
  The group's rank and size are the \<open>int\<close> fields \<open>rank_\<close> and \<open>size_\<close> of the base
  class, set from the communicator at construction; the communicator of the group reports
  the same size. The build flag \<open>USE_VECTOR_ALLGATHERV\<close> is the field
  \<open>use_vector_allgatherv\<close>. The options of a call are its root rank and its reduction
  operator.
\<close>

record ProcessGroupCCL =
  rank' :: int
  size' :: int
  use_vector_allgatherv :: bool

record Options =
  rootRank :: int
  reduceOp :: ReduceOp

definition getSize :: "ProcessGroupCCL \<Rightarrow> int" where
  "getSize pg = size' pg"

definition comm_size :: "ProcessGroupCCL \<Rightarrow> nat" where
  "comm_size pg = nat (size' pg)"

definition broadcast :: "ProcessGroupCCL \<Rightarrow> Tensor list \<Rightarrow> Options \<Rightarrow> WorkCCL M" where
  "broadcast pg tensors opts =
     bnd (chk (checkSingleTensor tensors)) (\<lambda>_.
     bnd (chk (checkRank (rootRank opts) (getSize pg))) (\<lambda>_.
     bnd (CCL_CHECK
            (bnd (chk (map_at cclDatatypes (scalar_type (tensors ! 0)))) (\<lambda>dt.
             ccl_issue (Bcast (data_ptr (tensors ! 0)) (numel (tensors ! 0)) dt
                          (to_size_t (rootRank opts)))))) (\<lambda>r.
     ret (WorkCCL_new r tensors))))"


definition allreduce_coalesced :: "WorkCCL M" where
  "allreduce_coalesced =
     throw (StdRuntimeError ''ProcessGroupCCL does not support allreduce_coalesced'')"

definition reduce :: "ProcessGroupCCL \<Rightarrow> Tensor list \<Rightarrow> Options \<Rightarrow> WorkCCL M" where
  "reduce pg tensors opts =
     bnd (chk (checkSingleTensor tensors)) (\<lambda>_.
     bnd (chk (checkRank (rootRank opts) (getSize pg))) (\<lambda>_.
     bnd (CCL_CHECK
            (bnd (chk (map_at cclDatatypes (scalar_type (tensors ! 0)))) (\<lambda>dt.
             bnd (chk (map_at cclOps (reduceOp opts))) (\<lambda>rop.
             ccl_issue (Reduce (data_ptr (tensors ! 0)) (data_ptr (tensors ! 0))
                          (numel (tensors ! 0)) dt rop (to_size_t (rootRank opts))))))) (\<lambda>r.
     ret (WorkCCL_new r tensors))))"

definition allgather ::
  "ProcessGroupCCL \<Rightarrow> Tensor list list \<Rightarrow> Tensor list \<Rightarrow> WorkCCL M" where
  "allgather pg outputTensors inputTensors =
     bnd (chk (checkSingleTensor inputTensors)) (\<lambda>_.
     bnd (chk (TORCH_CHECK (length outputTensors = 1)
                 ''ProcessGroupCCL/allgather supports a single tensor op only'')) (\<lambda>_.
     bnd (chk (TORCH_CHECK (comm_size pg = length (outputTensors ! 0))
                 ''ProcessGroupCCL/allgather: number of output tensors should equal to the world size'')) (\<lambda>_.
     bnd (chk (checkSameSizeAndType (inputTensors ! 0) (outputTensors ! 0))) (\<lambda>_.
     let recvCounts = replicate (comm_size pg) (numel (inputTensors ! 0)) in
     if use_vector_allgatherv pg
     then
       bnd (CCL_CHECK
              (bnd (chk (map_at cclDatatypes (scalar_type (inputTensors ! 0)))) (\<lambda>dt.
               ccl_issue (Allgatherv (data_ptr (inputTensors ! 0)) (numel (inputTensors ! 0))
                            (VectorBuf (map data_ptr (outputTensors ! 0))) recvCounts dt)))) (\<lambda>r.
       ret (WorkCCL_new r (outputTensors ! 0 @ [inputTensors ! 0])))
     else
       bnd (newLikeFlat (outputTensors ! 0)) (\<lambda>flatOutputTensor.
       bnd (CCL_CHECK
              (bnd (chk (map_at cclDatatypes (scalar_type (inputTensors ! 0)))) (\<lambda>dt.
               ccl_issue (Allgatherv (data_ptr (inputTensors ! 0)) (numel (inputTensors ! 0))
                            (FlatBuf (data_ptr flatOutputTensor)) recvCounts dt)))) (\<lambda>r.
       bnd (req_wait r) (\<lambda>_.
       bnd (copy_each (map (\<lambda>i. (outputTensors ! 0 ! i, select0 flatOutputTensor i))
                         [0..<length (outputTensors ! 0)])) (\<lambda>_.
       ret (WorkCCL_new r [])))))))))"

definition allgather_base :: "WorkCCL M" where
  "allgather_base = throw (StdRuntimeError ''ProcessGroupCCL does not support allgather_base'')"

definition allgather_coalesced :: "WorkCCL M" where
  "allgather_coalesced =
     throw (StdRuntimeError ''ProcessGroupCCL does not support allgather_coalesced'')"

definition gather ::
  "ProcessGroupCCL \<Rightarrow> Tensor list list \<Rightarrow> Tensor list \<Rightarrow> Options \<Rightarrow> WorkCCL M" where
  "gather pg outputTensors inputTensors opts =
     bnd (chk (checkSingleTensor inputTensors)) (\<lambda>_.
     bnd (if rank' pg \<noteq> rootRank opts
          then chk (TORCH_CHECK (length outputTensors = 0)
                      ''Gather: number of output tensors should be 0 for non-root'')
          else
            bnd (chk (TORCH_CHECK (length outputTensors = 1)
                        ''Gather: multi-GPU collective is not supported'')) (\<lambda>_.
            bnd (chk (TORCH_CHECK (to_size_t (size' pg) = length (outputTensors ! 0))
                        ''Gather: number of output tensors should equal to the world size'')) (\<lambda>_.
            chk (checkSameSizeAndType (inputTensors ! 0) (outputTensors ! 0))))) (\<lambda>_.
     bnd (chk (vec_set (replicate (nat (size' pg)) 0) (rootRank opts)
                 (numel (inputTensors ! 0)))) (\<lambda>sendCounts.
     bnd (if rank' pg = rootRank opts
          then
            bnd (computeLengthsAndCheckAndGetFlat (outputTensors ! 0)
                   (replicate (nat (size' pg)) 0)) (\<lambda>(isOutputFlat, recvCounts, flatOutput).
            bnd (chk (vec_at sendCounts (rank' pg))) (\<lambda>sc.
            bnd (chk (vec_at recvCounts (rank' pg))) (\<lambda>rc.
            bnd (chk (TORCH_CHECK (sc = rc) ''Gather: Send and recv count doesn't match'')) (\<lambda>_.
            ret (isOutputFlat, recvCounts, flatOutput)))))
          else
            bnd (at_empty [0] (inputTensors ! 0)) (\<lambda>flatOutput.
            ret (False, replicate (nat (size' pg)) 0, flatOutput)))
       (\<lambda>(isOutputFlat, recvCounts, flatOutput).
     bnd (CCL_CHECK
            (bnd (chk (map_at cclDatatypes (scalar_type flatOutput))) (\<lambda>dt.
             ccl_issue (Alltoallv (data_ptr (inputTensors ! 0)) sendCounts
                          (data_ptr flatOutput) recvCounts dt)))) (\<lambda>r.
     bnd (if rank' pg = rootRank opts
          then
            (if \<not> isOutputFlat
             then
               bnd (req_wait r) (\<lambda>_.
               bnd (copy_each (zip (map view_flat (outputTensors ! 0))
                                 (split_with_sizes flatOutput recvCounts))) (\<lambda>_.
               ret []))
             else ret [flatOutput, inputTensors ! 0])
          else ret [inputTensors ! 0]) (\<lambda>gatherTensors.
     ret (WorkCCL_new r gatherTensors)))))))"

definition scatter ::
  "ProcessGroupCCL \<Rightarrow> Tensor list \<Rightarrow> Tensor list list \<Rightarrow> Options \<Rightarrow> WorkCCL M" where
  "scatter pg outputTensors inputTensors opts =
     bnd (chk (checkSingleTensor outputTensors)) (\<lambda>_.
     bnd (if rank' pg \<noteq> rootRank opts
          then chk (TORCH_CHECK (length inputTensors = 0)
                      ''Scatter: number of input tensors should be 0 for non-root'')
          else
            bnd (chk (TORCH_CHECK (length inputTensors = 1)
                        ''Scatter: multi-GPU collective is not supported'')) (\<lambda>_.
            bnd (chk (TORCH_CHECK (to_size_t (size' pg) = length (inputTensors ! 0))
                        ''Scatter: number of input tensors should equal to the world size'')) (\<lambda>_.
            chk (checkSameSizeAndType (outputTensors ! 0) (inputTensors ! 0))))) (\<lambda>_.
     bnd (chk (vec_set (replicate (nat (size' pg)) 0) (rootRank opts)
                 (numel (outputTensors ! 0)))) (\<lambda>recvCounts.
     bnd (if rank' pg = rootRank opts
          then
            bnd (computeLengthsAndCheckAndGetFlat (inputTensors ! 0)
                   (replicate (nat (size' pg)) 0)) (\<lambda>(isInputFlat, sendCounts, flatInput).
            bnd (if \<not> isInputFlat
                 then copy_each (zip (split_with_sizes flatInput sendCounts)
                                   (map view_flat (inputTensors ! 0)))
                 else ret ()) (\<lambda>_.
            bnd (chk (vec_at recvCounts (rank' pg))) (\<lambda>rc.
            bnd (chk (vec_at sendCounts (rank' pg))) (\<lambda>sc.
            bnd (chk (TORCH_CHECK (rc = sc) ''Scatter: Send and recv count doesn't match'')) (\<lambda>_.
            ret (sendCounts, flatInput))))))
          else
            bnd (at_empty [0] (outputTensors ! 0)) (\<lambda>flatInput.
            ret (replicate (nat (size' pg)) 0, flatInput)))
       (\<lambda>(sendCounts, flatInput).
     bnd (CCL_CHECK
            (bnd (chk (map_at cclDatatypes (scalar_type flatInput))) (\<lambda>dt.
             ccl_issue (Alltoallv (data_ptr flatInput) sendCounts
                          (data_ptr (outputTensors ! 0)) recvCounts dt)))) (\<lambda>r.
     ret (WorkCCL_new r
            (outputTensors ! 0 # (if rank' pg = rootRank opts then [flatInput] else []))))))))"

definition reduce_scatter :: "WorkCCL M" where
  "reduce_scatter = throw (StdRuntimeError ''ProcessGroupCCL does not support reduce_scatter'')"

text \<open>
  The per-rank counts of \<open>alltoall_base\<close>, which the source computes in the same way for
  the input and for the output buffer: the element count of the buffer, divided (when it
  is not zero) by the group size or by the leading dimension, then one entry per rank,
  in \<open>size_t\<close> arithmetic.
\<close>

definition splitCounts :: "int \<Rightarrow> int list \<Rightarrow> Tensor \<Rightarrow> failure + nat list" where
  "splitCounts sz splitSizes tensor =
     (let splitsEqual = (length splitSizes = 0);
          len0 = numel tensor
      in case (if len0 \<noteq> 0
               then (case (if splitsEqual then Inr (to_size_t sz) else size0 tensor) of
                       Inl e \<Rightarrow> Inl e
                     | Inr d \<Rightarrow>
                         if d = 0 then Inl (UndefinedBehaviour ''division by zero'')
                         else Inr (len0 div d))
               else Inr len0) of
           Inl e \<Rightarrow> Inl e
         | Inr len \<Rightarrow>
             Inr (map (\<lambda>i. if splitsEqual then len
                            else (to_size_t (splitSizes ! i) * len) mod 2 ^ 64)
                    [0..<nat sz]))"

definition alltoall_base ::
  "ProcessGroupCCL \<Rightarrow> Tensor \<Rightarrow> Tensor \<Rightarrow> int list \<Rightarrow> int list \<Rightarrow> WorkCCL M" where
  "alltoall_base pg outputTensor inputTensor outputSplitSizes inputSplitSizes =
     bnd (chk (checkSingleTensorHelper inputTensor)) (\<lambda>_.
     bnd (chk (checkSingleTensorHelper outputTensor)) (\<lambda>_.
     bnd (if length outputSplitSizes = 0 \<and> length inputSplitSizes = 0
          then
            bnd (chk (TORCH_CHECK (numel outputTensor = numel inputTensor \<and>
                                   scalar_type outputTensor = scalar_type inputTensor)
                        ''Tensors are not equal in size or data type'')) (\<lambda>_.
            bnd (chk (size0 outputTensor)) (\<lambda>d.
            bnd (if size' pg = 0 then throw (UndefinedBehaviour ''remainder by zero'')
                 else chk (TORCH_CHECK (c_rem (int d) (size' pg) = 0)
                             ''Tensor's dim 0 does not divide equally across group size'')) (\<lambda>_.
            CCL_CHECK
              (bnd (chk (map_at cclDatatypes (scalar_type outputTensor))) (\<lambda>dt.
               ccl_issue (Alltoall (data_ptr inputTensor) (data_ptr outputTensor)
                            (numel outputTensor div comm_size pg) dt))))))
          else
            bnd (chk (checkSplitSizes inputSplitSizes inputTensor (size' pg))) (\<lambda>_.
            bnd (chk (checkSplitSizes outputSplitSizes outputTensor (size' pg))) (\<lambda>_.
            bnd (chk (splitCounts (size' pg) inputSplitSizes inputTensor)) (\<lambda>sendCounts.
            bnd (chk (splitCounts (size' pg) outputSplitSizes outputTensor)) (\<lambda>recvCounts.
            CCL_CHECK
              (bnd (chk (map_at cclDatatypes (scalar_type outputTensor))) (\<lambda>dt.
               ccl_issue (Alltoallv (data_ptr inputTensor) sendCounts
                            (data_ptr outputTensor) recvCounts dt)))))))) (\<lambda>r.
     ret (WorkCCL_new r [inputTensor, outputTensor]))))"

definition alltoall ::
  "ProcessGroupCCL \<Rightarrow> Tensor list \<Rightarrow> Tensor list \<Rightarrow> WorkCCL M" where
  "alltoall pg outputTensors inputTensors =
     bnd (chk (TORCH_CHECK (length inputTensors = to_size_t (size' pg))
                 ''Number of input tensors are not equal to group size'')) (\<lambda>_.
     bnd (chk (TORCH_CHECK (length outputTensors = to_size_t (size' pg))
                 ''Number of output tensors are not equal to group size'')) (\<lambda>_.
     bnd (chk (vec_at outputTensors 0)) (\<lambda>out0.
     bnd (chk (checkSameType out0 inputTensors)) (\<lambda>_.
     bnd (chk (vec_at inputTensors 0)) (\<lambda>in0.
     bnd (chk (checkSameType in0 outputTensors)) (\<lambda>_.
     bnd (computeLengthsAndCheckAndGetFlat inputTensors (replicate (nat (size' pg)) 0))
       (\<lambda>(isInputFlat, sendCounts, flatInput).
     bnd (computeLengthsAndCheckAndGetFlat outputTensors (replicate (nat (size' pg)) 0))
       (\<lambda>(isOutputFlat, recvCounts, flatOutput).
     bnd (if \<not> isInputFlat
          then copy_each (zip (split_with_sizes flatInput sendCounts)
                            (map view_flat inputTensors))
          else ret ()) (\<lambda>_.
     bnd (CCL_CHECK
            (bnd (chk (map_at cclDatatypes (scalar_type flatOutput))) (\<lambda>dt.
             ccl_issue (Alltoallv (data_ptr flatInput) sendCounts
                          (data_ptr flatOutput) recvCounts dt)))) (\<lambda>r.
     bnd (if \<not> isOutputFlat
          then
            bnd (req_wait r) (\<lambda>_.
            bnd (copy_each (zip (map view_flat outputTensors)
                              (split_with_sizes flatOutput recvCounts))) (\<lambda>_.
            ret []))
          else ret [flatOutput, flatInput]) (\<lambda>a2aTensors.
     ret (WorkCCL_new r a2aTensors))))))))))))"

definition send :: "WorkCCL M" where
  "send = throw (StdRuntimeError ''ProcessGroupCCL does not support send'')"

definition recv :: "WorkCCL M" where
  "recv = throw (StdRuntimeError ''ProcessGroupCCL does not support recv'')"

definition recvAnysource :: "WorkCCL M" where
  "recvAnysource = throw (StdRuntimeError ''ProcessGroupCCL does not support recvAnysource'')"

definition barrier :: "ProcessGroupCCL \<Rightarrow> WorkCCL M" where
  "barrier pg = bnd (CCL_CHECK ccl_barrier) (\<lambda>_. ret WorkCCL_empty)"

section \<open>Vocabulary of the properties\<close>

text \<open>
  The words of the specification about the reconciler. The layout anchor of a list is its
  first buffer with elements, or the first buffer when there is none. Buffer \<open>i\<close> is in
  place for an anchor when it lies in the anchor's allocation at the anchor's offset plus
  the lengths of the buffers before it. \<open>in_place_from\<close> is the same check written along
  the list, for the buffers with elements only, as the loop makes it.
\<close>

definition layout_anchor :: "Tensor list \<Rightarrow> Tensor" where
  "layout_anchor ts =
     (case find (\<lambda>t. numel t \<noteq> 0) ts of None \<Rightarrow> hd ts | Some a \<Rightarrow> a)"

definition in_place :: "Tensor \<Rightarrow> Tensor list \<Rightarrow> nat \<Rightarrow> bool" where
  "in_place a ts i =
     (storage (ts ! i) = storage a \<and>
      storage_offset (ts ! i) = storage_offset a + int (sum_list (map numel (take i ts))))"

fun in_place_from :: "nat \<Rightarrow> int \<Rightarrow> nat \<Rightarrow> Tensor list \<Rightarrow> bool" where
  "in_place_from st fso off [] = True"
| "in_place_from st fso off (t # ts) =
     ((numel t = 0 \<or> (storage t = st \<and> storage_offset t = fso + int off)) \<and>
      in_place_from st fso (off + numel t) ts)"

definition flat_verdict :: "(failure + bool \<times> nat list \<times> Tensor) \<times> world \<Rightarrow> bool option" where
  "flat_verdict r = (case fst r of Inl _ \<Rightarrow> None | Inr (b, _, _) \<Rightarrow> Some b)"

text \<open>A world in which the substrate never raises, and two sample buffers.\<close>

definition w0 :: world where
  "w0 = \<lparr>trace = [], next_req = 0, finished = [], next_storage = 100,
          raises = (\<lambda>_. None), progress = (\<lambda>_. False)\<rparr>"

definition float_buf :: "nat \<Rightarrow> int \<Rightarrow> nat list \<Rightarrow> Tensor" where
  "float_buf st off shape =
     \<lparr>storage = st, storage_offset = off, sizes = shape, scalar_type = kFloat,
      is_contiguous = True, is_sparse = False, is_cuda = False\<rparr>"

text \<open>A group of two ranks seen from rank 0, options with a given root, the error that
  \<open>CCL_CHECK\<close> makes of anything that is not an error of the substrate, and a buffer of
  16-bit integers, an element type that is not in the table.\<close>

definition pg2 :: ProcessGroupCCL where
  "pg2 = \<lparr>rank' = 0, size' = 2, use_vector_allgatherv = False\<rparr>"

definition root :: "int \<Rightarrow> Options" where
  "root r = \<lparr>rootRank = r, reduceOp = ReduceOp_SUM\<rparr>"

definition unknown_error :: failure where
  "unknown_error = StdRuntimeError ''unknown error in: ProcessGroupCCL.cpp''"


text \<open>
  A valid split list in the words of the specification: empty, with the group size dividing
  the leading dimension, or one entry per rank, the entries summing to the leading dimension.
\<close>

definition valid_split_sizes :: "int \<Rightarrow> int list \<Rightarrow> Tensor \<Rightarrow> bool" where
  "valid_split_sizes groupSize split_sizes tensor =
     (case sizes tensor of
        [] \<Rightarrow> False
      | d # _ \<Rightarrow>
          if split_sizes = [] then groupSize dvd int d
          else int (length split_sizes) = groupSize \<and> sum_list split_sizes = int d)"

text \<open>
  A handle that still holds a request the engine has already waited on: its buffer list is
  empty, the request is among the finished ones and its wait is in the trace; destroying
  such a handle terminates, \<open>wait\<close> answers true and clears the request, and so does
  \<open>isCompleted\<close> when the substrate's test does not raise.
\<close>

definition held_after_wait :: "WorkCCL \<Rightarrow> world \<Rightarrow> bool" where
  "held_after_wait w s =
     (case req w of
        None \<Rightarrow> False
      | Some r \<Rightarrow>
          tensors' w = [] \<and> r \<in> set (finished s) \<and> Waited r \<in> set (trace s) \<and>
          snd (WorkCCL_destroy w) = Terminated \<and>
          fst (wait w s) = Inr (True, WorkCCL_empty) \<and>
          (raises s (TestOn r) = None \<longrightarrow> fst (isCompleted w s) = Inr (True, WorkCCL_empty)))"

text \<open>
  The events a call adds to the trace when it waits on its own request inside the call:
  copies into the flat source, the call issued with the next free request, the wait on
  that request directly after it, and copies back out of the flat destination. The handle
  holds that request and no buffers, one request was issued, and it is now finished.
\<close>

definition is_copy :: "event \<Rightarrow> bool" where
  "is_copy e = (case e of Copied _ _ _ \<Rightarrow> True | _ \<Rightarrow> False)"

definition waited_inside ::
  "world \<Rightarrow> world \<Rightarrow> WorkCCL \<Rightarrow> event list \<Rightarrow> ccl_call \<Rightarrow> event list \<Rightarrow> bool" where
  "waited_inside s s' w pre c post =
     (w = WorkCCL_new (next_req s) [] \<and>
      trace s' = trace s @ pre @ Issued c (next_req s) # Waited (next_req s) # post \<and>
      list_all is_copy pre \<and> list_all is_copy post \<and>
      next_req s' = Suc (next_req s) \<and> finished s' = next_req s # finished s \<and>
      held_after_wait w s')"

text \<open>
  A call that ends with the "unknown error" of \<open>CCL_CHECK\<close> and has not entered the
  substrate: no request was issued or finished, and the trace has grown by copies only.
\<close>

definition fails_unknown_without_call :: "WorkCCL M \<Rightarrow> world \<Rightarrow> bool" where
  "fails_unknown_without_call m s =
     (case m s of
        (r, s') \<Rightarrow>
          r = Inl unknown_error \<and> next_req s' = next_req s \<and> finished s' = finished s \<and>
          take (length (trace s)) (trace s') = trace s \<and>
          list_all is_copy (drop (length (trace s)) (trace s')))"

section \<open>The reconciler's loop\<close>

lemma flat_loop_lengths:
  "i + length ts \<le> length (lengths st) \<Longrightarrow>
   lengths (flat_loop ts i st) =
     take i (lengths st) @ map numel ts @ drop (i + length ts) (lengths st)"
proof (induction ts arbitrary: i st)
  case Nil
  then show ?case by simp
next
  case (Cons t ts)
  let ?st4 = "(let len = numel t;
          st1 = (if firstLength st = 0 \<and> len \<noteq> 0
                 then st\<lparr>firstLength := len, firstTensor := t,
                        storage' := storage t,
                        firstStorageOffset := storage_offset t\<rparr>
                 else st);
          st2 = st1\<lparr>lengths := (lengths st1)[i := len]\<rparr>;
          st3 = (if isFlat st2 \<and> len \<noteq> 0 \<and>
                    (\<not> is_alias_of (storage' st2) (storage t) \<or>
                     storage_offset t \<noteq> firstStorageOffset st2 + int (offset st2))
                 then st2\<lparr>isFlat := False\<rparr>
                 else st2)
           in st3\<lparr>offset := offset st3 + len\<rparr>)"
  have l4: "lengths ?st4 = (lengths st)[i := numel t]"
    by (simp add: Let_def)
  have step: "flat_loop (t # ts) i st = flat_loop ts (Suc i) ?st4"
    by (simp add: Let_def)
  have "Suc i + length ts \<le> length (lengths ?st4)"
    using Cons.prems l4 by simp
  from Cons.IH[OF this] have
    "lengths (flat_loop ts (Suc i) ?st4) =
       take (Suc i) ((lengths st)[i := numel t]) @ map numel ts @
       drop (Suc i + length ts) ((lengths st)[i := numel t])"
    using l4 by simp
  moreover have "take (Suc i) ((lengths st)[i := numel t]) = take i (lengths st) @ [numel t]"
    using Cons.prems by (simp add: take_Suc_conv_app_nth)
  moreover have "drop (Suc i + length ts) ((lengths st)[i := numel t]) =
                 drop (i + length (t # ts)) (lengths st)"
    by simp
  ultimately show ?case using step by simp
qed

lemma flat_loop_offset:
  "offset (flat_loop ts i st) = offset st + sum_list (map numel ts)"
  by (induction ts arbitrary: i st) (simp_all add: Let_def)

lemma flat_loop_anchored:
  "firstLength st \<noteq> 0 \<Longrightarrow>
   isFlat (flat_loop ts i st) =
     (isFlat st \<and> in_place_from (storage' st) (firstStorageOffset st) (offset st) ts) \<and>
   firstTensor (flat_loop ts i st) = firstTensor st"
  by (induction ts arbitrary: i st) (auto simp add: Let_def is_alias_of_def)

lemma in_place_from_all_empty:
  "\<forall>t \<in> set ts. numel t = 0 \<Longrightarrow> in_place_from st fso off ts"
  by (induction ts arbitrary: off) simp_all

lemma flat_loop_unanchored:
  "firstLength st = 0 \<Longrightarrow> offset st = 0 \<Longrightarrow>
   (case find (\<lambda>t. numel t \<noteq> 0) ts of
      None \<Rightarrow> isFlat (flat_loop ts i st) = isFlat st \<and>
              firstTensor (flat_loop ts i st) = firstTensor st
    | Some a \<Rightarrow>
        isFlat (flat_loop ts i st) =
          (isFlat st \<and> in_place_from (storage a) (storage_offset a) (offset st) ts) \<and>
        firstTensor (flat_loop ts i st) = a)"
proof (induction ts arbitrary: i st)
  case Nil
  then show ?case by simp
next
  case (Cons t ts)
  show ?case
  proof (cases "numel t = 0")
    case True
    have step: "flat_loop (t # ts) i st = flat_loop ts (Suc i) (st\<lparr>lengths := (lengths st)[i := 0]\<rparr>)"
      using True by (simp add: Let_def)
    have "firstLength (st\<lparr>lengths := (lengths st)[i := 0]\<rparr>) = 0"
      and "offset (st\<lparr>lengths := (lengths st)[i := 0]\<rparr>) = 0"
      using Cons.prems by simp_all
    from Cons.IH[OF this, of "Suc i"] show ?thesis
      using True step by (simp split: option.splits)
  next
    case False
    let ?st4 = "st\<lparr>firstLength := numel t, firstTensor := t, storage' := storage t,
                   firstStorageOffset := storage_offset t,
                   lengths := (lengths st)[i := numel t],
                   offset := offset st + numel t\<rparr>"
    have step: "flat_loop (t # ts) i st = flat_loop ts (Suc i) ?st4"
      using False Cons.prems by (simp add: Let_def is_alias_of_def)
    have "firstLength ?st4 \<noteq> 0" using False by simp
    from flat_loop_anchored[OF this, of ts "Suc i"] show ?thesis
      unfolding step using False Cons.prems by (auto simp del: flat_loop.simps)
  qed
qed


lemma in_place_from_iff:
  "in_place_from st fso off ts =
     (\<forall>i<length ts. numel (ts ! i) \<noteq> 0 \<longrightarrow>
        storage (ts ! i) = st \<and>
        storage_offset (ts ! i) = fso + int (off + sum_list (map numel (take i ts))))"
proof (induction ts arbitrary: off)
  case Nil
  then show ?case by simp
next
  case (Cons t ts)
  show ?case
    unfolding in_place_from.simps Cons.IH
    by (auto simp add: All_less_Suc2 ac_simps)
qed

lemma reconciler_result:
  assumes "ts \<noteq> []" and "length ls = length ts"
  shows "computeLengthsAndCheckAndGetFlat ts ls s =
     (if in_place_from (storage (layout_anchor ts)) (storage_offset (layout_anchor ts)) 0 ts
      then (Inr (True, map numel ts, layout_anchor ts), s)
      else bnd (at_empty [sum_list (map numel ts)] (layout_anchor ts))
             (\<lambda>flatTensor. ret (False, map numel ts, flatTensor)) s)"
proof -
  from assms obtain t0 rest where ts: "ts = t0 # rest" by (cases ts) auto
  let ?st = "flat_loop ts 0 (flat_init t0 ls)"
  have len: "lengths ?st = map numel ts"
    using flat_loop_lengths[of 0 ts "flat_init t0 ls"] assms by (simp add: flat_init_def)
  have off: "offset ?st = sum_list (map numel ts)"
    using flat_loop_offset[of ts 0 "flat_init t0 ls"] by (simp add: flat_init_def)
  have flat: "isFlat ?st =
       in_place_from (storage (layout_anchor ts)) (storage_offset (layout_anchor ts)) 0 ts \<and>
     firstTensor ?st = layout_anchor ts"
  proof (cases "numel t0 = 0")
    case False
    then have "firstLength (flat_init t0 ls) \<noteq> 0" by (simp add: flat_init_def)
    from flat_loop_anchored[OF this, of ts 0] show ?thesis
      using False by (simp add: flat_init_def layout_anchor_def ts del: flat_loop.simps)
  next
    case True
    then have "firstLength (flat_init t0 ls) = 0" and "offset (flat_init t0 ls) = 0"
      by (simp_all add: flat_init_def)
    note un = flat_loop_unanchored[OF this, of ts 0]
    show ?thesis
    proof (cases "find (\<lambda>t. numel t \<noteq> 0) ts")
      case None
      then have "\<forall>t \<in> set ts. numel t = 0" by (simp add: find_None_iff)
      then have "in_place_from (storage (layout_anchor ts)) (storage_offset (layout_anchor ts)) 0 ts"
        by (rule in_place_from_all_empty)
      moreover have "layout_anchor ts = t0" using None by (simp add: layout_anchor_def ts)
      ultimately show ?thesis using un None by (simp add: flat_init_def)
    next
      case (Some a)
      then have "layout_anchor ts = a" by (simp add: layout_anchor_def)
      then show ?thesis using un Some by (simp add: flat_init_def)
    qed
  qed
  show ?thesis
    using assms len off flat
    by (simp add: computeLengthsAndCheckAndGetFlat_def ts Let_def ret_def del: flat_loop.simps)
qed

lemma in_place_from_skip_empty:
  "numel z = 0 \<Longrightarrow>
   in_place_from st fso off (xs @ z # ys) = in_place_from st fso off (xs @ ys)"
  by (induction xs arbitrary: off) simp_all

lemma find_skip_empty:
  "numel z = 0 \<Longrightarrow>
   find (\<lambda>t. numel t \<noteq> 0) (xs @ z # ys) = find (\<lambda>t. numel t \<noteq> 0) (xs @ ys)"
  by (induction xs) simp_all

lemma anchored_verdict:
  "in_place_from (storage (layout_anchor ts)) (storage_offset (layout_anchor ts)) 0 ts =
     (case find (\<lambda>t. numel t \<noteq> 0) ts of
        None \<Rightarrow> True
      | Some a \<Rightarrow> in_place_from (storage a) (storage_offset a) 0 ts)"
  by (auto simp add: layout_anchor_def find_None_iff in_place_from_all_empty split: option.splits)

lemma reconciler_verdict:
  assumes "ts \<noteq> []" and "length ls = length ts"
  shows "flat_verdict (computeLengthsAndCheckAndGetFlat ts ls s) =
     Some (case find (\<lambda>t. numel t \<noteq> 0) ts of
             None \<Rightarrow> True
           | Some a \<Rightarrow> in_place_from (storage a) (storage_offset a) 0 ts)"
  unfolding reconciler_result[OF assms] anchored_verdict
  by (simp add: flat_verdict_def bnd_def at_empty_def ret_def)

section \<open>Properties of the reconciler\<close>

text \<open>
  C3: for every non-empty list of buffers that already lie in one allocation in rank
  order (every buffer is in place for the layout anchor), the reconciler reports "flat",
  the length table holds each buffer's element count, and the flat buffer is the anchor
  itself; the world is unchanged, so nothing was allocated.
\<close>

theorem reconciler_contiguous_is_flat:
  assumes "tensors \<noteq> []" and "length lengths0 = length tensors"
    and "\<forall>i<length tensors. in_place (layout_anchor tensors) tensors i"
  shows "computeLengthsAndCheckAndGetFlat tensors lengths0 s =
           (Inr (True, map numel tensors, layout_anchor tensors), s)"
proof -
  have "in_place_from (storage (layout_anchor tensors))
          (storage_offset (layout_anchor tensors)) 0 tensors"
    using assms(3) by (simp add: in_place_from_iff in_place_def)
  then show ?thesis
    using reconciler_result[OF assms(1,2), of s] by simp
qed

theorem reconciler_contiguous_is_flat_witness:
  "computeLengthsAndCheckAndGetFlat
     [float_buf 1 10 [0], float_buf 1 10 [2], float_buf 1 12 [3]] [0, 0, 0] w0 =
   (Inr (True, [0, 2, 3], float_buf 1 10 [2]), w0)"
proof -
  let ?ts = "[float_buf 1 10 [0], float_buf 1 10 [2], float_buf 1 12 [3]]"
  have a: "layout_anchor ?ts = float_buf 1 10 [2]"
    by (simp add: layout_anchor_def float_buf_def numel_def)
  have "\<forall>i<length ?ts. in_place (layout_anchor ?ts) ?ts i"
    unfolding a by (simp add: All_less_Suc in_place_def float_buf_def numel_def)
  from reconciler_contiguous_is_flat[OF _ _ this, of "[0, 0, 0]" w0] show ?thesis
    unfolding a by (simp add: float_buf_def numel_def)
qed

text \<open>
  C4: when the first buffer has no elements, the first buffer with elements becomes the
  anchor: the verdict is that every buffer with elements is in place for it, the flat
  buffer is that anchor when the verdict is "flat", and a fresh buffer of the total length
  with the anchor's options otherwise. When no buffer has elements the verdict is "flat"
  and the flat buffer is the first buffer, which has no elements.
\<close>

theorem reconciler_adopts_first_nonempty_anchor:
  assumes "tensors \<noteq> []" and "length lengths0 = length tensors"
    and "numel (hd tensors) = 0"
  shows "(\<forall>a. find (\<lambda>t. numel t \<noteq> 0) tensors = Some a \<longrightarrow>
            computeLengthsAndCheckAndGetFlat tensors lengths0 s =
              (if \<forall>i<length tensors. numel (tensors ! i) \<noteq> 0 \<longrightarrow> in_place a tensors i
               then (Inr (True, map numel tensors, a), s)
               else (Inr (False, map numel tensors,
                          \<lparr>storage = next_storage s, storage_offset = 0,
                           sizes = [sum_list (map numel tensors)],
                           scalar_type = scalar_type a, is_contiguous = True,
                           is_sparse = is_sparse a, is_cuda = is_cuda a\<rparr>),
                     s\<lparr>next_storage := Suc (next_storage s)\<rparr>))) \<and>
         ((\<forall>t \<in> set tensors. numel t = 0) \<longrightarrow>
            computeLengthsAndCheckAndGetFlat tensors lengths0 s =
              (Inr (True, map numel tensors, hd tensors), s) \<and>
            numel (hd tensors) = 0)"
proof (intro conjI allI impI)
  fix a
  assume f: "find (\<lambda>t. numel t \<noteq> 0) tensors = Some a"
  then have a: "layout_anchor tensors = a" by (simp add: layout_anchor_def)
  show "computeLengthsAndCheckAndGetFlat tensors lengths0 s =
              (if \<forall>i<length tensors. numel (tensors ! i) \<noteq> 0 \<longrightarrow> in_place a tensors i
               then (Inr (True, map numel tensors, a), s)
               else (Inr (False, map numel tensors,
                          \<lparr>storage = next_storage s, storage_offset = 0,
                           sizes = [sum_list (map numel tensors)],
                           scalar_type = scalar_type a, is_contiguous = True,
                           is_sparse = is_sparse a, is_cuda = is_cuda a\<rparr>),
                     s\<lparr>next_storage := Suc (next_storage s)\<rparr>))"
  proof -
    have "in_place_from (storage a) (storage_offset a) 0 tensors =
            (\<forall>i<length tensors. numel (tensors ! i) \<noteq> 0 \<longrightarrow> in_place a tensors i)"
      by (simp add: in_place_from_iff in_place_def)
    then show ?thesis
      unfolding reconciler_result[OF assms(1,2)] a
      by (auto simp add: bnd_def at_empty_def ret_def)
  qed
next
  assume z: "\<forall>t \<in> set tensors. numel t = 0"
  then have "find (\<lambda>t. numel t \<noteq> 0) tensors = None" by (simp add: find_None_iff)
  then have a: "layout_anchor tensors = hd tensors" by (simp add: layout_anchor_def)
  show "computeLengthsAndCheckAndGetFlat tensors lengths0 s =
              (Inr (True, map numel tensors, hd tensors), s)"
    unfolding reconciler_result[OF assms(1,2)] a
    using in_place_from_all_empty[OF z] by simp
next
  show "numel (hd tensors) = 0" by (rule assms(3))
qed

theorem reconciler_adopts_first_nonempty_anchor_witness:
  "computeLengthsAndCheckAndGetFlat
     [float_buf 1 0 [0], float_buf 2 5 [2], float_buf 2 7 [3]] [0, 0, 0] w0 =
     (Inr (True, [0, 2, 3], float_buf 2 5 [2]), w0) \<and>
   computeLengthsAndCheckAndGetFlat
     [float_buf 1 0 [0], float_buf 2 5 [2], float_buf 1 2 [3]] [0, 0, 0] w0 =
     (Inr (False, [0, 2, 3], float_buf 100 0 [5]), w0\<lparr>next_storage := 101\<rparr>) \<and>
   computeLengthsAndCheckAndGetFlat [float_buf 1 0 [0], float_buf 2 5 [3, 0]] [0, 0] w0 =
     (Inr (True, [0, 0], float_buf 1 0 [0]), w0)"
proof -
  let ?t1 = "[float_buf 1 0 [0], float_buf 2 5 [2], float_buf 2 7 [3]]"
  let ?t2 = "[float_buf 1 0 [0], float_buf 2 5 [2], float_buf 1 2 [3]]"
  let ?t3 = "[float_buf 1 0 [0], float_buf 2 5 [3, 0]]"
  have 1: "computeLengthsAndCheckAndGetFlat ?t1 [0, 0, 0] w0 =
             (Inr (True, [0, 2, 3], float_buf 2 5 [2]), w0)"
    using reconciler_adopts_first_nonempty_anchor[of ?t1 "[0, 0, 0]" w0]
    by (simp add: float_buf_def numel_def in_place_def All_less_Suc)
  have 2: "computeLengthsAndCheckAndGetFlat ?t2 [0, 0, 0] w0 =
             (Inr (False, [0, 2, 3], float_buf 100 0 [5]), w0\<lparr>next_storage := 101\<rparr>)"
    using reconciler_adopts_first_nonempty_anchor[of ?t2 "[0, 0, 0]" w0]
    by (simp add: float_buf_def numel_def in_place_def All_less_Suc w0_def)
  have 3: "computeLengthsAndCheckAndGetFlat ?t3 [0, 0] w0 =
             (Inr (True, [0, 0], float_buf 1 0 [0]), w0)"
    using reconciler_adopts_first_nonempty_anchor[of ?t3 "[0, 0]" w0]
    by (simp add: float_buf_def numel_def)
  from 1 2 3 show ?thesis by simp
qed

text \<open>
  C10: a buffer without elements never changes the verdict, whatever its allocation and
  offset: inserting one anywhere into a list, or putting another one in its place, leaves
  the verdict as it was.
\<close>

theorem zero_length_buffer_never_changes_verdict:
  assumes "numel z = 0" and "numel z' = 0" and "xs @ ys \<noteq> []"
    and "length ls = length (xs @ ys)" and "length ls' = Suc (length (xs @ ys))"
  shows "flat_verdict (computeLengthsAndCheckAndGetFlat (xs @ z # ys) ls' s) =
           flat_verdict (computeLengthsAndCheckAndGetFlat (xs @ ys) ls s) \<and>
         flat_verdict (computeLengthsAndCheckAndGetFlat (xs @ z' # ys) ls' s) =
           flat_verdict (computeLengthsAndCheckAndGetFlat (xs @ z # ys) ls' s)"
proof -
  have l: "length ls' = length (xs @ z # ys)" "length ls' = length (xs @ z' # ys)"
    using assms(5) by simp_all
  have ne: "xs @ z # ys \<noteq> []" "xs @ z' # ys \<noteq> []" by simp_all
  show ?thesis
    unfolding reconciler_verdict[OF assms(3,4)] reconciler_verdict[OF ne(1) l(1)]
      reconciler_verdict[OF ne(2) l(2)]
      find_skip_empty[OF assms(1)] find_skip_empty[OF assms(2)]
    by (simp add: in_place_from_skip_empty[OF assms(1)] in_place_from_skip_empty[OF assms(2)]
        split: option.splits)
qed


theorem zero_length_buffer_never_changes_verdict_witness:
  "flat_verdict (computeLengthsAndCheckAndGetFlat
       [float_buf 1 0 [2], float_buf 9 99 [0], float_buf 1 2 [3]] [0, 0, 0] w0) =
     flat_verdict (computeLengthsAndCheckAndGetFlat
       [float_buf 1 0 [2], float_buf 1 2 [3]] [0, 0] w0) \<and>
   flat_verdict (computeLengthsAndCheckAndGetFlat
       [float_buf 1 0 [2], float_buf 8 5 [0, 3], float_buf 1 2 [3]] [0, 0, 0] w0) =
     flat_verdict (computeLengthsAndCheckAndGetFlat
       [float_buf 1 0 [2], float_buf 9 99 [0], float_buf 1 2 [3]] [0, 0, 0] w0)"
  using zero_length_buffer_never_changes_verdict
    [of "float_buf 9 99 [0]" "float_buf 8 5 [0, 3]" "[float_buf 1 0 [2]]" "[float_buf 1 2 [3]]"
        "[0, 0]" "[0, 0, 0]" w0]
  by (simp add: float_buf_def numel_def)

section \<open>Properties of the Work Handle\<close>

text \<open>
  C7: destroying a handle that holds a request terminates the process, and destroying a
  handle without a request returns; the destructor has no other outcome.
\<close>

theorem destroy_pending_handle_terminates:
  "(req w \<noteq> None \<longrightarrow> snd (WorkCCL_destroy w) = Terminated) \<and>
   (req w = None \<longrightarrow> WorkCCL_destroy w = ([], Returned))"
  by (simp add: WorkCCL_destroy_def)

theorem destroy_pending_handle_terminates_witness:
  "snd (WorkCCL_destroy (WorkCCL_new 0 [float_buf 1 0 [2]])) = Terminated \<and>
   WorkCCL_destroy WorkCCL_empty = ([], Returned)"
  using destroy_pending_handle_terminates [of "WorkCCL_new 0 [float_buf 1 0 [2]]"]
    destroy_pending_handle_terminates [of WorkCCL_empty]
  by (simp add: WorkCCL_new_def WorkCCL_empty_def)

text \<open>
  C8: a handle without a request answers \<open>isCompleted\<close> and \<open>wait\<close> with true; neither
  the handle nor the world changes, so the substrate is not entered.
\<close>

theorem no_request_handle_is_complete:
  assumes "req w = None"
  shows "isCompleted w s = (Inr (True, w), s) \<and> wait w s = (Inr (True, w), s)"
  using assms by (simp add: isCompleted_def wait_def ret_def)

theorem no_request_handle_is_complete_witness:
  "isCompleted WorkCCL_empty w0 = (Inr (True, WorkCCL_empty), w0) \<and>
   wait WorkCCL_empty w0 = (Inr (True, WorkCCL_empty), w0)"
  using no_request_handle_is_complete [of WorkCCL_empty w0]
  by (simp add: WorkCCL_empty_def)

text \<open>The handle that \<open>barrier\<close> returns is such a handle.\<close>

lemma barrier_handle_has_no_request:
  "barrier pg s = (Inr w, s') \<Longrightarrow> req w = None"
  by (auto simp add: barrier_def bnd_def ret_def WorkCCL_empty_def
      split: prod.splits sum.splits)

section \<open>Helper facts on the monad and the lookups\<close>

lemma replicate_numeral:
  "replicate (numeral k) x = x # replicate (pred_numeral k) x"
  by (simp add: numeral_eq_Suc)

lemma bnd_chk_Inr: "bnd (chk (Inr x)) f = f x"
  by (simp add: bnd_def chk_def fun_eq_iff)

lemma bnd_chk_Inl: "bnd (chk (Inl e)) f s = (Inl e, s)"
  by (simp add: bnd_def chk_def)


lemma bnd_ok: "m s = (Inr x, s') \<Longrightarrow> bnd m f s = f x s'"
  by (simp add: bnd_def)




section \<open>The root rank of rooted operations\<close>

text \<open>Broadcast and reduce check the root rank before anything reaches the substrate.\<close>

lemma rooted_single_buffer_ops_check_root:
  assumes "\<not> (0 \<le> rootRank opts \<and> rootRank opts < size' pg)"
  shows "\<exists>msg. broadcast pg tensors opts s = (Inl (C10Error msg), s)"
    and "\<exists>msg. reduce pg tensors opts s = (Inl (C10Error msg), s)"
proof -
  have r: "checkRank (rootRank opts) (getSize pg) = Inl (C10Error ''unexpected rank'')"
    using assms by (auto simp add: checkRank_def getSize_def TORCH_CHECK_def)
  have c: "checkSingleTensor tensors = Inr () \<or> (\<exists>msg. checkSingleTensor tensors = Inl (C10Error msg))"
    by (auto simp add: checkSingleTensor_def checkSingleTensorHelper_def split: list.splits)
  from c show "\<exists>msg. broadcast pg tensors opts s = (Inl (C10Error msg), s)"
    by (auto simp add: broadcast_def r bnd_chk_Inr bnd_chk_Inl)
  from c show "\<exists>msg. reduce pg tensors opts s = (Inl (C10Error msg), s)"
    by (auto simp add: reduce_def r bnd_chk_Inr bnd_chk_Inl)
qed

text \<open>
  C2: a rooted operation with a root rank outside the group must fail with a validation
  error. Gather and scatter never call \<open>checkRank\<close>: on a rank that is not the root they
  write \<open>sendCounts[rootRank]\<close> (or \<open>recvCounts[rootRank]\<close>) out of range, which is
  undefined behaviour, where \<open>checkRank\<close> would have raised.
\<close>

theorem gather_scatter_do_not_check_root:
  "gather pg2 [] [float_buf 3 0 [2]] (root 5) w0 =
     (Inl (UndefinedBehaviour ''vector subscript out of range''), w0) \<and>
   scatter pg2 [float_buf 3 0 [2]] [] (root (- 1)) w0 =
     (Inl (UndefinedBehaviour ''vector subscript out of range''), w0) \<and>
   \<not> is_validation_error (UndefinedBehaviour ''vector subscript out of range'') \<and>
   checkRank 5 (getSize pg2) = Inl (C10Error ''unexpected rank'') \<and>
   checkRank (- 1) (getSize pg2) = Inl (C10Error ''unexpected rank'')"
  by (simp add: gather_def scatter_def pg2_def root_def bnd_def chk_def checkSingleTensor_def
      checkSingleTensorHelper_def float_buf_def TORCH_CHECK_def vec_set_def numel_def
      is_validation_error_def checkRank_def getSize_def)

section \<open>Split sizes\<close>

lemma to_int32_in_range:
  "- (2 ^ 31) \<le> v \<Longrightarrow> v < 2 ^ 31 \<Longrightarrow> to_int32 v = v"
  by (simp add: to_int32_def sint_sbintrunc' signed_take_bit_int_eq_self)

lemma accumulate_int_no_wrap:
  "\<forall>x \<in> set xs. 0 \<le> x \<Longrightarrow> 0 \<le> init \<Longrightarrow> init + sum_list xs < 2 ^ 31 \<Longrightarrow>
   accumulate_int xs init = init + sum_list xs"
proof (induction xs arbitrary: init)
  case Nil
  then show ?case by simp
next
  case (Cons x xs)
  have nn: "0 \<le> sum_list xs" using Cons.prems(1) by (simp add: sum_list_nonneg)
  have "to_int32 (init + x) = init + x"
    using Cons.prems nn by (intro to_int32_in_range) simp_all
  moreover have "accumulate_int xs (init + x) = init + x + sum_list xs"
    using Cons.prems by (intro Cons.IH) simp_all
  ultimately show ?case by simp
qed

lemma c_rem_eq_0_iff: "0 \<le> a \<Longrightarrow> c_rem a b = 0 \<longleftrightarrow> b dvd a"
proof -
  assume "0 \<le> a"
  then have "c_rem a b = 0 \<longleftrightarrow> a = 0 \<or> a mod \<bar>b\<bar> = 0"
    by (auto simp add: c_rem_def sgn_if)
  also have "\<dots> \<longleftrightarrow> \<bar>b\<bar> dvd a"
    by (auto simp add: mod_eq_0_iff_dvd)
  finally show ?thesis by simp
qed

lemma checkSplitSizes_exact_below_2_31:
  assumes "0 < groupSize" and "groupSize < 2 ^ 31" and "sizes tensor \<noteq> []"
    and "\<forall>x \<in> set split_sizes. 0 \<le> x" and "sum_list split_sizes < 2 ^ 31"
  shows "checkSplitSizes split_sizes tensor groupSize = Inr () \<longleftrightarrow>
         valid_split_sizes groupSize split_sizes tensor"
proof -
  from assms(3) obtain d rest where d: "sizes tensor = d # rest" by (cases "sizes tensor") auto
  have acc: "accumulate_int split_sizes 0 = sum_list split_sizes"
    using accumulate_int_no_wrap[of split_sizes 0] assms(4,5) by simp
  have sz: "to_size_t groupSize = nat groupSize"
    using assms(1,2) by (simp add: to_size_t_def)
  show ?thesis
    using assms(1) acc sz
    by (auto simp add: checkSplitSizes_def valid_split_sizes_def d size0_def TORCH_CHECK_def
        c_rem_eq_0_iff Let_def)
qed

text \<open>
  C5: a split list with one entry per rank must be accepted exactly when its entries sum to
  the leading dimension. The source sums in a 32-bit \<open>int\<close>: a valid list whose sum is
  \<open>2^31\<close> is rejected, and a list whose sum is \<open>2^32 + 4\<close> is accepted for a leading
  dimension of 4. Below \<open>2^31\<close> the check is exact (\<open>checkSplitSizes_exact_below_2_31\<close>).
\<close>

theorem checkSplitSizes_sums_in_32_bits:
  "valid_split_sizes 2 [1073741824, 1073741824] (float_buf 1 0 [2147483648]) \<and>
   checkSplitSizes [1073741824, 1073741824] (float_buf 1 0 [2147483648]) 2 =
     Inl (C10Error ''Split sizes doesn't match total dim 0 size'') \<and>
   \<not> valid_split_sizes 2 [4294967296, 4] (float_buf 1 0 [4]) \<and>
   checkSplitSizes [4294967296, 4] (float_buf 1 0 [4]) 2 = Inr ()"
  by (simp add: checkSplitSizes_def valid_split_sizes_def to_size_t_def to_int32_def size0_def
      float_buf_def TORCH_CHECK_def)

section \<open>The per-rank counts of all-to-all\<close>

lemmas eval_defs =
  alltoall_base_def pg2_def bnd_def chk_def ret_def checkSingleTensorHelper_def float_buf_def
  TORCH_CHECK_def numel_def CCL_CHECK_def map_at_def cclDatatypes_def comm_size_def w0_def
  ccl_issue_def data_ptr_def WorkCCL_new_def checkSplitSizes_def splitCounts_def size0_def
  to_size_t_def to_int32_def Let_def upt_rec

lemma bnd_InrD:
  "bnd m f s = (Inr y, s') \<Longrightarrow> \<exists>x s1. m s = (Inr x, s1) \<and> f x s1 = (Inr y, s')"
  by (auto simp add: bnd_def split: prod.splits sum.splits)

lemma chk_InrD: "chk r s = (Inr x, s') \<Longrightarrow> r = Inr x \<and> s' = s"
  by (simp add: chk_def)

lemma ret_InrD: "ret x s = (Inr y, s') \<Longrightarrow> y = x \<and> s' = s"
  by (auto simp add: ret_def)

lemma throw_InrD: "throw e s = (Inr y, s') \<Longrightarrow> False"
  by (simp add: throw_def)

lemma CCL_CHECK_InrD: "CCL_CHECK m s = (Inr x, s') \<Longrightarrow> m s = (Inr x, s')"
  by (auto simp add: CCL_CHECK_def split: prod.splits sum.splits failure.splits)

lemma ccl_issue_InrD:
  "ccl_issue c s = (Inr r, s') \<Longrightarrow>
   r = next_req s \<and>
   s' = s\<lparr>trace := trace s @ [Issued c (next_req s)], next_req := Suc (next_req s)\<rparr>"
  by (auto simp add: ccl_issue_def split: option.splits)

lemma nonneg_member_le_sum_list:
  fixes xs :: "int list"
  shows "\<forall>x \<in> set xs. 0 \<le> x \<Longrightarrow> y \<in> set xs \<Longrightarrow> y \<le> sum_list xs"
proof (induction xs)
  case Nil
  then show ?case by simp
next
  case (Cons x xs)
  have "0 \<le> sum_list xs" using Cons.prems(1) by (simp add: sum_list_nonneg)
  then show ?case using Cons by auto
qed

lemma sum_list_map_nat:
  "\<forall>x \<in> set xs. 0 \<le> x \<Longrightarrow> sum_list (map nat xs) = nat (sum_list xs)"
proof (induction xs)
  case Nil
  then show ?case by simp
next
  case (Cons x xs)
  have "0 \<le> sum_list xs" using Cons.prems by (simp add: sum_list_nonneg)
  then show ?case using Cons by (simp add: nat_add_distrib)
qed

lemma sum_list_const_upt: "sum_list (map (\<lambda>i. c) [0..<n]) = n * (c::nat)"
  by (induction n) simp_all

lemma map_nth_upt: "map (\<lambda>i. f (xs ! i)) [0..<length xs] = map f xs"
  by (rule nth_equalityI) simp_all

lemma sum_list_scaled: "sum_list (map (\<lambda>x. g x * c) xs) = sum_list (map g xs) * (c::nat)"
  by (induction xs) (simp_all add: add_mult_distrib)

lemma splitCounts_even:
  assumes "0 < sz" and "sz < 2 ^ 31" and "sizes t = d # rest" and "sz dvd int d"
  shows "splitCounts sz [] t = Inr (replicate (nat sz) (numel t div nat sz)) \<and>
         nat sz * (numel t div nat sz) = numel t"
proof -
  have sz: "to_size_t sz = nat sz" "nat sz \<noteq> 0"
    using assms(1,2) by (simp_all add: to_size_t_def)
  have "nat sz dvd d" using assms(1,4) by (simp add: nat_dvd_iff)
  then have dv: "nat sz dvd numel t" by (simp add: numel_def assms(3))
  have m: "map (\<lambda>i. c) [0..<n] = replicate n c" for c :: nat and n
    by (rule nth_equalityI) simp_all
  show ?thesis
    using sz dv by (auto simp add: splitCounts_def Let_def m)
qed

lemma splitCounts_explicit:
  assumes "0 < sz" and "sizes t = d # rest" and "splits \<noteq> []"
    and "int (length splits) = sz" and "sum_list splits = int d"
    and "\<forall>x \<in> set splits. 0 \<le> x" and "numel t < 2 ^ 64"
  shows "splitCounts sz splits t = Inr (map (\<lambda>x. nat x * prod_list rest) splits) \<and>
         sum_list (map (\<lambda>x. nat x * prod_list rest) splits) = numel t"
proof -
  let ?p = "prod_list rest"
  have n: "numel t = d * ?p" by (simp add: numel_def assms(2))
  have len: "nat sz = length splits" using assms(4) by auto
  have sum: "sum_list (map (\<lambda>x. nat x * ?p) splits) = numel t"
    using sum_list_map_nat[OF assms(6)] assms(5)
    by (simp add: sum_list_scaled n)
  have entry: "(to_size_t x * l) mod 2 ^ 64 = nat x * l"
    if "x \<in> set splits" and "l \<le> ?p" for x l
  proof -
    have x: "0 \<le> x" "x \<le> int d"
      using that(1) assms(5,6) nonneg_member_le_sum_list[of splits x] by auto
    have "nat x * l \<le> d * ?p"
      using x that(2) by (intro mult_le_mono) auto
    then have b: "nat x * l < 2 ^ 64" using assms(7) n by simp
    show ?thesis
    proof (cases "l = 0")
      case True
      then show ?thesis by simp
    next
      case False
      then have "nat x \<le> nat x * l" by simp
      from this b have "nat x < 2 ^ 64" by (rule le_less_trans)
      then have "x < 2 ^ 64" using x(1) by (simp add: nat_less_iff)
      then have "to_size_t x = nat x" using x(1) by (simp add: to_size_t_def)
      then show ?thesis using b by simp
    qed
  qed
  have counts: "map (\<lambda>i. (to_size_t (splits ! i) * l) mod 2 ^ 64) [0..<nat sz] =
                map (\<lambda>x. nat x * l) splits" if "l \<le> ?p" for l
    unfolding len map_nth_upt[of "\<lambda>x. (to_size_t x * l) mod 2 ^ 64" splits]
    using entry[OF _ that] by simp
  have "splitCounts sz splits t = Inr (map (\<lambda>x. nat x * ?p) splits)"
  proof (cases "numel t = 0")
    case True
    then have z: "map (\<lambda>x. nat x * ?p) splits = map (\<lambda>x. nat x * 0) splits"
      using sum by (auto simp add: sum_list_eq_0_iff)
    show ?thesis
      using True assms(3) counts[of 0] z
      by (simp add: splitCounts_def Let_def)
  next
    case False
    then have "d \<noteq> 0" using n by auto
    then have "numel t div d = ?p" using n by simp
    then show ?thesis
      using False assms(2,3) \<open>d \<noteq> 0\<close> counts[of ?p]
      by (simp add: splitCounts_def Let_def size0_def)
  qed
  then show ?thesis using sum by simp
qed

lemma splitCounts_sum:
  assumes "0 < sz" and "sz < 2 ^ 31" and "valid_split_sizes sz splits t"
    and "\<forall>x \<in> set splits. 0 \<le> x" and "numel t < 2 ^ 64"
  shows "\<exists>cs. splitCounts sz splits t = Inr cs \<and> sum_list cs = numel t"
proof -
  from assms(3) obtain d rest where d: "sizes t = d # rest"
    by (cases "sizes t") (auto simp add: valid_split_sizes_def)
  show ?thesis
  proof (cases "splits = []")
    case True
    then have "sz dvd int d" using assms(3) d by (simp add: valid_split_sizes_def)
    from splitCounts_even[OF assms(1,2) d this] show ?thesis
      using True by (auto simp add: sum_list_replicate)
  next
    case False
    then have "int (length splits) = sz" "sum_list splits = int d"
      using assms(3) d by (simp_all add: valid_split_sizes_def)
    from splitCounts_explicit[OF assms(1) d False this assms(4,5)] show ?thesis by blast
  qed
qed

text \<open>
  C6 (as amended): for every all-to-all call with valid split lists whose entries are not
  negative, the counts handed to the substrate sum to the element counts of the buffers:
  with both lists empty the one count per rank, times the group size, is the element count
  of the input and of the output buffer; otherwise the send counts sum to the element
  count of the input buffer and the receive counts to that of the output buffer. A buffer
  without elements is included. The group size is an \<open>int\<close> and an element count a
  \<open>size_t\<close>.
\<close>

theorem alltoall_counts_sum_to_numel:
  assumes "0 < size' pg" and "size' pg < 2 ^ 31"
    and "valid_split_sizes (size' pg) inputSplitSizes inputTensor"
    and "valid_split_sizes (size' pg) outputSplitSizes outputTensor"
    and "\<forall>x \<in> set inputSplitSizes. 0 \<le> x" and "\<forall>x \<in> set outputSplitSizes. 0 \<le> x"
    and "numel inputTensor < 2 ^ 64" and "numel outputTensor < 2 ^ 64"
    and "alltoall_base pg outputTensor inputTensor outputSplitSizes inputSplitSizes s = (Inr w, s')"
  shows "if inputSplitSizes = [] \<and> outputSplitSizes = []
         then \<exists>n dt. trace s' = trace s @
                  [Issued (Alltoall (data_ptr inputTensor) (data_ptr outputTensor) n dt) (next_req s)] \<and>
                nat (size' pg) * n = numel inputTensor \<and>
                nat (size' pg) * n = numel outputTensor
         else \<exists>sendCounts recvCounts dt. trace s' = trace s @
                  [Issued (Alltoallv (data_ptr inputTensor) sendCounts
                             (data_ptr outputTensor) recvCounts dt) (next_req s)] \<and>
                sum_list sendCounts = numel inputTensor \<and>
                sum_list recvCounts = numel outputTensor"
proof (cases "inputSplitSizes = [] \<and> outputSplitSizes = []")
  case True
  from assms(4) True obtain d rest where d: "sizes outputTensor = d # rest" "size' pg dvd int d"
    by (cases "sizes outputTensor") (auto simp add: valid_split_sizes_def)
  have even: "nat (size' pg) * (numel outputTensor div nat (size' pg)) = numel outputTensor"
    using splitCounts_even[OF assms(1,2) d] by simp
  from assms(9) True obtain dt where
    eq: "numel outputTensor = numel inputTensor"
    and s': "s' = s\<lparr>trace := trace s @
        [Issued (Alltoall (data_ptr inputTensor) (data_ptr outputTensor)
                   (numel outputTensor div comm_size pg) dt) (next_req s)],
        next_req := Suc (next_req s)\<rparr>"
    by (auto simp add: alltoall_base_def TORCH_CHECK_def
        dest!: bnd_InrD chk_InrD CCL_CHECK_InrD ccl_issue_InrD ret_InrD throw_InrD
        split: if_splits)
  show ?thesis
    using True even eq s' by (auto simp add: comm_size_def)
next
  case False
  from splitCounts_sum[OF assms(1,2,3,5,7)] obtain sc where
    sc: "splitCounts (size' pg) inputSplitSizes inputTensor = Inr sc" "sum_list sc = numel inputTensor"
    by blast
  from splitCounts_sum[OF assms(1,2,4,6,8)] obtain rc where
    rc: "splitCounts (size' pg) outputSplitSizes outputTensor = Inr rc" "sum_list rc = numel outputTensor"
    by blast
  from assms(9) False sc(1) rc(1) obtain dt where
    "s' = s\<lparr>trace := trace s @
        [Issued (Alltoallv (data_ptr inputTensor) sc (data_ptr outputTensor) rc dt) (next_req s)],
        next_req := Suc (next_req s)\<rparr>"
    by (auto simp add: alltoall_base_def
        dest!: bnd_InrD chk_InrD CCL_CHECK_InrD ccl_issue_InrD ret_InrD
        split: if_splits)
  then show ?thesis
    using False sc(2) rc(2) by auto
qed

theorem alltoall_counts_sum_to_numel_witness:
  "alltoall_base pg2 (float_buf 1 0 [4, 3]) (float_buf 2 0 [6, 2]) [1, 3] [2, 4] w0 =
     (Inr (WorkCCL_new 0 [float_buf 2 0 [6, 2], float_buf 1 0 [4, 3]]),
      w0\<lparr>trace := [Issued (Alltoallv (2, 0) [4, 8] (1, 0) [3, 9] dt_float) 0],
         next_req := 1\<rparr>) \<and>
   (\<exists>sendCounts recvCounts dt.
      [Issued (Alltoallv (2, 0) [4, 8] (1, 0) [3, 9] dt_float) 0] =
        [Issued (Alltoallv (2, 0) sendCounts (1, 0) recvCounts dt) 0] \<and>
      sum_list sendCounts = 12 \<and> sum_list recvCounts = 12)"
proof -
  let ?out = "float_buf 1 0 [4, 3]" and ?in = "float_buf 2 0 [6, 2]"
  have e: "alltoall_base pg2 ?out ?in [1, 3] [2, 4] w0 =
     (Inr (WorkCCL_new 0 [?in, ?out]),
      w0\<lparr>trace := [Issued (Alltoallv (2, 0) [4, 8] (1, 0) [3, 9] dt_float) 0],
         next_req := 1\<rparr>)"
    by (simp add: eval_defs)
  have v: "valid_split_sizes (size' pg2) [2, 4] ?in" "valid_split_sizes (size' pg2) [1, 3] ?out"
    by (simp_all add: valid_split_sizes_def float_buf_def pg2_def)
  have n: "numel ?in < 2 ^ 64" "numel ?out < 2 ^ 64"
    by (simp_all add: numel_def float_buf_def)
  have p: "0 < size' pg2" "size' pg2 < 2 ^ 31" by (simp_all add: pg2_def)
  have nn: "\<forall>x \<in> set [2, 4 :: int]. 0 \<le> x" "\<forall>x \<in> set [1, 3 :: int]. 0 \<le> x" by simp_all
  from alltoall_counts_sum_to_numel[OF p v nn n e] e show ?thesis
    by (simp add: w0_def data_ptr_def float_buf_def numel_def)
qed

text \<open>
  The claim as stated fails for a list with a negative entry: \<open>[-1, 5]\<close> has one entry per
  rank and sums to the leading dimension 4, the call is accepted, and the send count of
  rank 0 is \<open>2^64 - 1\<close>.
\<close>

theorem negative_split_sizes_break_the_counts:
  "valid_split_sizes 2 [- 1, 5] (float_buf 2 0 [4]) \<and>
   valid_split_sizes 2 [2, 2] (float_buf 1 0 [4]) \<and>
   alltoall_base pg2 (float_buf 1 0 [4]) (float_buf 2 0 [4]) [2, 2] [- 1, 5] w0 =
     (Inr (WorkCCL_new 0 [float_buf 2 0 [4], float_buf 1 0 [4]]),
      w0\<lparr>trace := [Issued (Alltoallv (2, 0) [18446744073709551615, 5] (1, 0) [2, 2] dt_float) 0],
         next_req := 1\<rparr>) \<and>
   sum_list [18446744073709551615, 5] \<noteq> numel (float_buf 2 0 [4])"
  by (simp add: eval_defs valid_split_sizes_def)

section \<open>The copy-back path\<close>

lemma req_wait_InrD:
  "req_wait r s = (Inr u, s') \<Longrightarrow>
   raises s (WaitOn r) = None \<and>
   s' = s\<lparr>trace := trace s @ [Waited r], finished := r # finished s\<rparr>"
  by (auto simp add: req_wait_def split: option.splits)

lemma copy_each_InrD:
  "copy_each ps s = (Inr u, s') \<Longrightarrow>
   \<exists>evs. s' = s\<lparr>trace := trace s @ evs\<rparr> \<and> list_all is_copy evs"
proof (induction ps arbitrary: s)
  case Nil
  then show ?case by (auto simp add: ret_def intro: exI[of _ "[]"])
next
  case (Cons p ps)
  obtain dst src where p: "p = (dst, src)" by (cases p)
  from Cons.prems obtain s1 where
    1: "copy' dst src s = (Inr (), s1)" and 2: "copy_each ps s1 = (Inr u, s')"
    unfolding p by (auto dest!: bnd_InrD)
  from 1 obtain ev where s1: "s1 = s\<lparr>trace := trace s @ [ev]\<rparr>" "is_copy ev"
    by (auto simp add: copy'_def throw_def is_copy_def split: if_splits)
  from Cons.IH[OF 2] obtain evs where
    "s' = s1\<lparr>trace := trace s1 @ evs\<rparr>" "list_all is_copy evs" by blast
  then have "s' = s\<lparr>trace := trace s @ (ev # evs)\<rparr> \<and> list_all is_copy (ev # evs)"
    using s1 by simp
  then show ?case by blast
qed

lemma at_empty_InrD:
  "at_empty shape like s = (Inr t, s') \<Longrightarrow> s' = s\<lparr>next_storage := Suc (next_storage s)\<rparr>"
  by (auto simp add: at_empty_def)

lemma newLikeFlat_InrD:
  "newLikeFlat ts s = (Inr t, s') \<Longrightarrow> s' = s\<lparr>next_storage := Suc (next_storage s)\<rparr>"
  by (auto simp add: newLikeFlat_def throw_def dest: at_empty_InrD split: list.splits)

lemma reconciler_verdict_any_world:
  "flat_verdict (computeLengthsAndCheckAndGetFlat ts ls s) =
   flat_verdict (computeLengthsAndCheckAndGetFlat ts ls s0)"
  by (simp add: computeLengthsAndCheckAndGetFlat_def flat_verdict_def Let_def throw_def ret_def
      bnd_def at_empty_def split: list.splits)

lemma reconciler_InrD:
  assumes "computeLengthsAndCheckAndGetFlat ts ls s = (Inr (b, cs, f), s')"
  shows "flat_verdict (computeLengthsAndCheckAndGetFlat ts ls s0) = Some b \<and>
         (\<exists>n. s' = s\<lparr>next_storage := n\<rparr>)"
proof -
  have "flat_verdict (computeLengthsAndCheckAndGetFlat ts ls s) = Some b"
    using assms by (simp add: flat_verdict_def)
  moreover have "\<exists>n. s' = s\<lparr>next_storage := n\<rparr>"
    using assms
    by (auto simp add: computeLengthsAndCheckAndGetFlat_def Let_def throw_def ret_def
        bnd_def at_empty_def split: list.splits if_splits intro: exI[of _ "next_storage s"])
  ultimately show ?thesis by (simp add: reconciler_verdict_any_world[of ts ls s s0])
qed

lemma held_after_waitI:
  assumes "raises s (WaitOn r) = None" and "r \<in> set (finished s)" and "Waited r \<in> set (trace s)"
  shows "held_after_wait (WorkCCL_new r []) s"
  using assms
  by (simp add: held_after_wait_def WorkCCL_new_def WorkCCL_destroy_def wait_def isCompleted_def
      bnd_def CCL_CHECK_def req_wait_def req_test_def ret_def WorkCCL_empty_def Let_def)

lemma waited_insideI:
  assumes "w = WorkCCL_new (next_req s) []"
    and "trace s' = trace s @ pre @ Issued c (next_req s) # Waited (next_req s) # post"
    and "list_all is_copy pre" and "list_all is_copy post"
    and "next_req s' = Suc (next_req s)" and "finished s' = next_req s # finished s"
    and "raises s' (WaitOn (next_req s)) = None"
  shows "waited_inside s s' w pre c post"
proof -
  have "held_after_wait (WorkCCL_new (next_req s) []) s'"
    using assms(2,6,7) by (intro held_after_waitI) simp_all
  then show ?thesis using assms by (simp add: waited_inside_def)
qed

lemma waited_insideI0:
  assumes "w = WorkCCL_new (next_req s) [] \<and>
     trace s' = trace s @ [] @ Issued c (next_req s) # Waited (next_req s) # post \<and>
     list_all is_copy post \<and>
     next_req s' = Suc (next_req s) \<and> finished s' = next_req s # finished s \<and>
     raises s' (WaitOn (next_req s)) = None"
  shows "waited_inside s s' w [] c post"
  using assms by (intro waited_insideI) simp_all

lemma waited_insideI1:
  assumes "w = WorkCCL_new (next_req s) [] \<and>
     trace s' = trace s @ pre @ Issued c (next_req s) # Waited (next_req s) # post \<and>
     list_all is_copy pre \<and> list_all is_copy post \<and>
     next_req s' = Suc (next_req s) \<and> finished s' = next_req s # finished s \<and>
     raises s' (WaitOn (next_req s)) = None"
  shows "waited_inside s s' w pre c post"
  using assms by (intro waited_insideI) simp_all

lemma allgather_flat_mode:
  assumes "\<not> use_vector_allgatherv pg" and "allgather pg outputLists inputTensors s = (Inr w, s')"
  shows "\<exists>flat dt post.
           waited_inside s s' w []
             (Allgatherv (data_ptr (inputTensors ! 0)) (numel (inputTensors ! 0)) (FlatBuf flat)
                (replicate (comm_size pg) (numel (inputTensors ! 0))) dt) post"
proof -
  from assms have
    "\<exists>flat dt post.
       w = WorkCCL_new (next_req s) [] \<and>
       trace s' = trace s @ [] @
         Issued (Allgatherv (data_ptr (inputTensors ! 0)) (numel (inputTensors ! 0)) (FlatBuf flat)
                   (replicate (comm_size pg) (numel (inputTensors ! 0))) dt) (next_req s) #
         Waited (next_req s) # post \<and>
       list_all is_copy post \<and>
       next_req s' = Suc (next_req s) \<and> finished s' = next_req s # finished s \<and>
       raises s' (WaitOn (next_req s)) = None"
    by (auto simp add: allgather_def Let_def
        dest!: bnd_InrD chk_InrD CCL_CHECK_InrD ccl_issue_InrD ret_InrD newLikeFlat_InrD
          req_wait_InrD copy_each_InrD)
  then show ?thesis by (blast intro: waited_insideI0)
qed

lemma gather_not_flat:
  assumes "rank' pg = rootRank opts"
    and "flat_verdict (computeLengthsAndCheckAndGetFlat (outputLists ! 0)
           (replicate (nat (size' pg)) 0) s) = Some False"
    and "gather pg outputLists inputTensors opts s = (Inr w, s')"
  shows "\<exists>sendCounts flat recvCounts dt post.
           waited_inside s s' w []
             (Alltoallv (data_ptr (inputTensors ! 0)) sendCounts flat recvCounts dt) post"
proof -
  from assms have
    "\<exists>sendCounts flat recvCounts dt post.
       w = WorkCCL_new (next_req s) [] \<and>
       trace s' = trace s @ [] @
         Issued (Alltoallv (data_ptr (inputTensors ! 0)) sendCounts flat recvCounts dt) (next_req s) #
         Waited (next_req s) # post \<and>
       list_all is_copy post \<and>
       next_req s' = Suc (next_req s) \<and> finished s' = next_req s # finished s \<and>
       raises s' (WaitOn (next_req s)) = None"
    by (auto simp add: gather_def Let_def
        dest!: bnd_InrD chk_InrD CCL_CHECK_InrD ccl_issue_InrD ret_InrD at_empty_InrD
          req_wait_InrD copy_each_InrD reconciler_InrD[where ?s0.0 = s]
        split: if_splits)
  then show ?thesis by (blast intro: waited_insideI0)
qed

lemma alltoall_not_flat:
  assumes "flat_verdict (computeLengthsAndCheckAndGetFlat outputTensors
           (replicate (nat (size' pg)) 0) s) = Some False"
    and "alltoall pg outputTensors inputTensors s = (Inr w, s')"
  shows "\<exists>pre flatIn sendCounts flatOut recvCounts dt post.
           waited_inside s s' w pre (Alltoallv flatIn sendCounts flatOut recvCounts dt) post"
proof -
  define around where
    "around = (\<lambda>es. \<exists>pre flatIn sendCounts flatOut recvCounts dt post.
       es = pre @ Issued (Alltoallv flatIn sendCounts flatOut recvCounts dt) (next_req s) #
                  Waited (next_req s) # post \<and>
       list_all is_copy pre \<and> list_all is_copy post)"
  have with_pre: "around (pre @ Issued (Alltoallv fi sc fo rc dt) (next_req s) #
                            Waited (next_req s) # post)"
    if "list_all is_copy pre" and "list_all is_copy post" for pre fi sc fo rc dt post
    unfolding around_def using that by blast
  have no_pre: "around (Issued (Alltoallv fi sc fo rc dt) (next_req s) # Waited (next_req s) # post)"
    if "list_all is_copy post" for fi sc fo rc dt post
    using with_pre[of "[]" post fi sc fo rc dt] that by simp
  from assms have
    "w = WorkCCL_new (next_req s) [] \<and>
     (\<exists>es. trace s' = trace s @ es \<and> around es) \<and>
     next_req s' = Suc (next_req s) \<and> finished s' = next_req s # finished s \<and>
     raises s' (WaitOn (next_req s)) = None"
    by (auto simp add: alltoall_def Let_def with_pre no_pre
        dest!: bnd_InrD chk_InrD CCL_CHECK_InrD ccl_issue_InrD ret_InrD at_empty_InrD
          req_wait_InrD copy_each_InrD reconciler_InrD[where ?s0.0 = s]
        split: if_splits)
  then obtain pre fi sc fo rc dt post where
    "w = WorkCCL_new (next_req s) [] \<and>
     trace s' = trace s @ pre @ Issued (Alltoallv fi sc fo rc dt) (next_req s) #
                  Waited (next_req s) # post \<and>
     list_all is_copy pre \<and> list_all is_copy post \<and>
     next_req s' = Suc (next_req s) \<and> finished s' = next_req s # finished s \<and>
     raises s' (WaitOn (next_req s)) = None"
    unfolding around_def by blast
  then show ?thesis by (blast intro: waited_insideI1)
qed

lemmas eval_dispatch =
  allgather_def gather_def alltoall_def pg2_def root_def bnd_def chk_def ret_def
  checkSingleTensor_def checkSingleTensorHelper_def float_buf_def TORCH_CHECK_def numel_def
  CCL_CHECK_def map_at_def cclDatatypes_def comm_size_def newLikeFlat_def at_empty_def w0_def
  ccl_issue_def req_wait_def copy'_def data_ptr_def select0_def view_flat_def WorkCCL_new_def
  vec_at_def vec_set_def to_size_t_def computeLengthsAndCheckAndGetFlat_def flat_init_def
  is_alias_of_def flat_verdict_def upt_rec Let_def replicate_numeral

text \<open>
  C1 (as amended): every dispatch call that takes the copy-back path (all-gather with a
  flat destination, gather on the root with an output list that is not flat, all-to-all on
  buffer lists with an output list that is not flat) and returns a handle has issued one
  substrate call, for the next free request, and waited on that request inside the call,
  directly after issuing it and before copying back. The handle still holds that request,
  already finished, with no buffers: polling it answers true and clears the request, and
  destroying it before that terminates the process.
\<close>

theorem copy_back_path_waits_and_keeps_request:
  "(\<not> use_vector_allgatherv pg \<and>
    allgather pg outputLists inputTensors s = (Inr w, s') \<longrightarrow>
      (\<exists>flat dt post.
         waited_inside s s' w []
           (Allgatherv (data_ptr (inputTensors ! 0)) (numel (inputTensors ! 0)) (FlatBuf flat)
              (replicate (comm_size pg) (numel (inputTensors ! 0))) dt) post)) \<and>
   (rank' pg = rootRank opts \<and>
    flat_verdict (computeLengthsAndCheckAndGetFlat (outputLists ! 0)
      (replicate (nat (size' pg)) 0) s) = Some False \<and>
    gather pg outputLists inputTensors opts s = (Inr w, s') \<longrightarrow>
      (\<exists>sendCounts flat recvCounts dt post.
         waited_inside s s' w []
           (Alltoallv (data_ptr (inputTensors ! 0)) sendCounts flat recvCounts dt) post)) \<and>
   (flat_verdict (computeLengthsAndCheckAndGetFlat outputBuffers
      (replicate (nat (size' pg)) 0) s) = Some False \<and>
    alltoall pg outputBuffers inputBuffers s = (Inr w, s') \<longrightarrow>
      (\<exists>pre flatIn sendCounts flatOut recvCounts dt post.
         waited_inside s s' w pre (Alltoallv flatIn sendCounts flatOut recvCounts dt) post))"
proof (intro conjI impI; elim conjE)
  assume "\<not> use_vector_allgatherv pg" and "allgather pg outputLists inputTensors s = (Inr w, s')"
  then show "\<exists>flat dt post.
         waited_inside s s' w []
           (Allgatherv (data_ptr (inputTensors ! 0)) (numel (inputTensors ! 0)) (FlatBuf flat)
              (replicate (comm_size pg) (numel (inputTensors ! 0))) dt) post"
    by (rule allgather_flat_mode)
next
  assume "rank' pg = rootRank opts"
    and "flat_verdict (computeLengthsAndCheckAndGetFlat (outputLists ! 0)
      (replicate (nat (size' pg)) 0) s) = Some False"
    and "gather pg outputLists inputTensors opts s = (Inr w, s')"
  then show "\<exists>sendCounts flat recvCounts dt post.
         waited_inside s s' w []
           (Alltoallv (data_ptr (inputTensors ! 0)) sendCounts flat recvCounts dt) post"
    by (rule gather_not_flat)
next
  assume "flat_verdict (computeLengthsAndCheckAndGetFlat outputBuffers
      (replicate (nat (size' pg)) 0) s) = Some False"
    and "alltoall pg outputBuffers inputBuffers s = (Inr w, s')"
  then show "\<exists>pre flatIn sendCounts flatOut recvCounts dt post.
         waited_inside s s' w pre (Alltoallv flatIn sendCounts flatOut recvCounts dt) post"
    by (rule alltoall_not_flat)
qed

theorem copy_back_path_waits_and_keeps_request_witness:
  "allgather pg2 [[float_buf 1 0 [2], float_buf 2 0 [2]]] [float_buf 3 0 [2]] w0 =
     (Inr (WorkCCL_new 0 []),
      w0\<lparr>trace := [Issued (Allgatherv (3, 0) 2 (FlatBuf (100, 0)) [2, 2] dt_float) 0, Waited 0,
                    Copied (1, 0) (100, 0) 2, Copied (2, 0) (100, 2) 2],
         next_req := 1, finished := [0], next_storage := 101\<rparr>) \<and>
   (\<exists>flat dt post.
      waited_inside w0
        (w0\<lparr>trace := [Issued (Allgatherv (3, 0) 2 (FlatBuf (100, 0)) [2, 2] dt_float) 0, Waited 0,
                      Copied (1, 0) (100, 0) 2, Copied (2, 0) (100, 2) 2],
           next_req := 1, finished := [0], next_storage := 101\<rparr>)
        (WorkCCL_new 0 []) [] (Allgatherv (3, 0) 2 (FlatBuf flat) [2, 2] dt) post) \<and>
   gather pg2 [[float_buf 1 0 [2], float_buf 2 0 [2]]] [float_buf 3 0 [2]] (root 0) w0 =
     (Inr (WorkCCL_new 0 []),
      w0\<lparr>trace := [Issued (Alltoallv (3, 0) [2, 0] (100, 0) [2, 2] dt_float) 0, Waited 0,
                    Copied (1, 0) (100, 0) 2, Copied (2, 0) (100, 2) 2],
         next_req := 1, finished := [0], next_storage := 101\<rparr>) \<and>
   (\<exists>sendCounts flat recvCounts dt post.
      waited_inside w0
        (w0\<lparr>trace := [Issued (Alltoallv (3, 0) [2, 0] (100, 0) [2, 2] dt_float) 0, Waited 0,
                      Copied (1, 0) (100, 0) 2, Copied (2, 0) (100, 2) 2],
           next_req := 1, finished := [0], next_storage := 101\<rparr>)
        (WorkCCL_new 0 []) [] (Alltoallv (3, 0) sendCounts flat recvCounts dt) post) \<and>
   alltoall pg2 [float_buf 1 0 [2], float_buf 2 0 [2]] [float_buf 3 0 [2], float_buf 4 0 [1]] w0 =
     (Inr (WorkCCL_new 0 []),
      w0\<lparr>trace := [Copied (100, 0) (3, 0) 2, Copied (100, 2) (4, 0) 1,
                    Issued (Alltoallv (100, 0) [2, 1] (101, 0) [2, 2] dt_float) 0, Waited 0,
                    Copied (1, 0) (101, 0) 2, Copied (2, 0) (101, 2) 2],
         next_req := 1, finished := [0], next_storage := 102\<rparr>) \<and>
   (\<exists>pre flatIn sendCounts flatOut recvCounts dt post.
      waited_inside w0
        (w0\<lparr>trace := [Copied (100, 0) (3, 0) 2, Copied (100, 2) (4, 0) 1,
                      Issued (Alltoallv (100, 0) [2, 1] (101, 0) [2, 2] dt_float) 0, Waited 0,
                      Copied (1, 0) (101, 0) 2, Copied (2, 0) (101, 2) 2],
           next_req := 1, finished := [0], next_storage := 102\<rparr>)
        (WorkCCL_new 0 []) pre (Alltoallv flatIn sendCounts flatOut recvCounts dt) post)"
proof -
  let ?outs = "[float_buf 1 0 [2], float_buf 2 0 [2]]"
  let ?in = "float_buf 3 0 [2]"
  let ?ins = "[float_buf 3 0 [2], float_buf 4 0 [1]]"
  let ?done = "\<lambda>c. w0\<lparr>trace := [Issued c 0, Waited 0,
                    Copied (1, 0) (100, 0) 2, Copied (2, 0) (100, 2) 2],
         next_req := 1, finished := [0], next_storage := 101\<rparr>"
  let ?done2 = "w0\<lparr>trace := [Copied (100, 0) (3, 0) 2, Copied (100, 2) (4, 0) 1,
                    Issued (Alltoallv (100, 0) [2, 1] (101, 0) [2, 2] dt_float) 0, Waited 0,
                    Copied (1, 0) (101, 0) 2, Copied (2, 0) (101, 2) 2],
         next_req := 1, finished := [0], next_storage := 102\<rparr>"
  have mode: "\<not> use_vector_allgatherv pg2" "rank' pg2 = rootRank (root 0)"
    by (simp_all add: pg2_def root_def)
  have verdict: "flat_verdict (computeLengthsAndCheckAndGetFlat ?outs
      (replicate (nat (size' pg2)) 0) w0) = Some False"
    by (simp add: eval_dispatch)
  have ag: "allgather pg2 [?outs] [?in] w0 =
      (Inr (WorkCCL_new 0 []),
       ?done (Allgatherv (3, 0) 2 (FlatBuf (100, 0)) [2, 2] dt_float))"
    by (simp add: eval_dispatch)
  have g: "gather pg2 [?outs] [?in] (root 0) w0 =
      (Inr (WorkCCL_new 0 []), ?done (Alltoallv (3, 0) [2, 0] (100, 0) [2, 2] dt_float))"
    by (simp add: eval_dispatch)
  have a2a: "alltoall pg2 ?outs ?ins w0 = (Inr (WorkCCL_new 0 []), ?done2)"
    by (simp add: eval_dispatch)
  have ptr: "data_ptr ?in = (3, 0)" "numel ?in = 2" "comm_size pg2 = 2"
    by (simp_all add: data_ptr_def float_buf_def numel_def comm_size_def pg2_def)
  note T = copy_back_path_waits_and_keeps_request
  have 1: "\<exists>flat dt post.
      waited_inside w0 (?done (Allgatherv (3, 0) 2 (FlatBuf (100, 0)) [2, 2] dt_float))
        (WorkCCL_new 0 []) [] (Allgatherv (3, 0) 2 (FlatBuf flat) [2, 2] dt) post"
    using T[where pg = pg2 and outputLists = "[?outs]" and inputTensors = "[?in]" and s = w0,
        THEN conjunct1] mode ag by (simp add: ptr replicate_numeral)
  have 2: "\<exists>sendCounts flat recvCounts dt post.
      waited_inside w0 (?done (Alltoallv (3, 0) [2, 0] (100, 0) [2, 2] dt_float))
        (WorkCCL_new 0 []) [] (Alltoallv (3, 0) sendCounts flat recvCounts dt) post"
    using T[where pg = pg2 and outputLists = "[?outs]" and inputTensors = "[?in]" and s = w0
          and opts = "root 0", THEN conjunct2, THEN conjunct1]
      mode verdict g by (simp add: ptr)
  have 3: "\<exists>pre flatIn sendCounts flatOut recvCounts dt post.
      waited_inside w0 ?done2
        (WorkCCL_new 0 []) pre (Alltoallv flatIn sendCounts flatOut recvCounts dt) post"
    using T[where pg = pg2 and outputBuffers = ?outs and inputBuffers = ?ins and s = w0,
        THEN conjunct2, THEN conjunct2]
      verdict a2a by simp
  from 1 2 3 ag g a2a show ?thesis by simp
qed

text \<open>
  The claim as stated fails: the handle of an all-gather with a flat destination holds a
  request, and destroying it terminates the process, unlike a handle without a request.
\<close>

theorem copy_back_handle_still_holds_request:
  "fst (allgather pg2 [[float_buf 1 0 [2], float_buf 2 0 [2]]] [float_buf 3 0 [2]] w0) =
     Inr \<lparr>req = Some 0, tensors' = []\<rparr> \<and>
   req \<lparr>req = Some 0, tensors' = []\<rparr> \<noteq> None \<and>
   snd (WorkCCL_destroy \<lparr>req = Some 0, tensors' = []\<rparr>) = Terminated \<and>
   snd (WorkCCL_destroy WorkCCL_empty) = Returned"
  by (simp add: eval_dispatch WorkCCL_destroy_def WorkCCL_empty_def)

section \<open>Unsupported element types and operators\<close>

lemma fails_unknown_without_callI:
  assumes "m s = (Inl unknown_error, s')"
    and "next_req s' = next_req s" and "finished s' = finished s"
    and "trace s' = trace s @ evs" and "list_all is_copy evs"
  shows "fails_unknown_without_call m s"
  using assms by (simp add: fails_unknown_without_call_def)






















end
